theory Spec2Isabelle
  imports Main "HOL-Library.Sublist"
begin

section \<open>JavaScript values shared by the services\<close>

text \<open>
  A thrown JavaScript error is the pair of its class name and its message; the services
  only ever read \<open>error.message\<close>. A function that may throw returns \<open>js_error + 'a\<close>,
  with \<open>Inl\<close> for the thrown error.
\<close>

record js_error =
  name :: string
  message :: string

definition Error :: "string \<Rightarrow> js_error" where
  "Error msg = \<lparr>name = ''Error'', message = msg\<rparr>"

definition CircleApiError :: "string \<Rightarrow> js_error" where
  "CircleApiError msg = \<lparr>name = ''CircleApiError'', message = msg\<rparr>"

text \<open>\<open>String.prototype.includes\<close>: the needle occurs as a contiguous run of the text.\<close>

fun str_includes :: "string \<Rightarrow> string \<Rightarrow> bool" where
  "str_includes [] needle = (needle = [])"
| "str_includes (c # cs) needle = (prefix needle (c # cs) \<or> str_includes cs needle)"

text \<open>\<open>a || b\<close> on an optional string: \<open>undefined\<close> and the empty string are falsy.\<close>

definition or_else :: "string option \<Rightarrow> string \<Rightarrow> string" where
  "or_else a b = (case a of None \<Rightarrow> b | Some s \<Rightarrow> if s = [] then b else s)"

text \<open>Template-literal rendering of a non-negative integer: its decimal digits.\<close>

definition digit_char :: "nat \<Rightarrow> char" where
  "digit_char d = ''0123456789'' ! (d mod 10)"

function string_of_nat :: "nat \<Rightarrow> string" where
  "string_of_nat n =
     (if n < 10 then [digit_char n] else string_of_nat (n div 10) @ [digit_char (n mod 10)])"
  by pat_completeness auto
termination
  by (relation "measure (\<lambda>n. n)") auto

declare string_of_nat.simps [simp del]

section \<open>CircleService: transaction status and the poller\<close>

datatype tx_state =
  INITIATED | PENDING_RISK_SCREENING | DENIED | QUEUED | SENT | CONFIRMED | FAILED | CANCELLED

text \<open>
  The body \<open>response.data.data\<close> of the provider's answer to \<open>GET /transactions/{id}\<close>.
  Of the free-form payload only \<open>errorReason\<close> is read by the poller.
\<close>

record api_transaction =
  api_state :: tx_state
  api_txHash :: "string option"
  api_blockHash :: "string option"
  api_blockHeight :: "nat option"
  api_gasUsed :: "string option"
  api_gasPrice :: "string option"
  errorReason :: "string option"

record TransactionResponse =
  success :: bool
  transactionId :: string
  state :: tx_state
  txHash :: "string option"
  blockHash :: "string option"
  blockHeight :: "nat option"
  gasUsed :: "string option"
  gasPrice :: "string option"
  data :: api_transaction

text \<open>
  What one HTTP status query does: it answers with a body, or the HTTP client throws.
  A thrown client error has its own message and, when the provider answered with an
  error body, the provider's message (\<open>error.response?.data?.message\<close>).
\<close>

datatype http_reply =
  HttpOk api_transaction
  | HttpErr "string option" string

text \<open>
  One poll as the outside world decides it: how many milliseconds the query takes and
  what it answers. A provider is the script of these events for a transaction, indexed by
  the number of queries already made.
\<close>

record poll_event =
  latency :: nat
  reply :: http_reply

type_synonym provider = "string \<Rightarrow> nat \<Rightarrow> poll_event"

text \<open>
  The state the poller runs in: the millisecond clock read by \<open>Date.now()\<close> and the
  number of status queries issued so far.
\<close>

record poll_world =
  clock :: nat
  calls :: nat

text \<open>\<open>await new Promise(resolve => setTimeout(resolve, ms))\<close> with an exact timer.\<close>

definition sleep :: "nat \<Rightarrow> poll_world \<Rightarrow> poll_world" where
  "sleep ms w = w\<lparr>clock := clock w + ms\<rparr>"

text \<open>The object \<open>getTransactionStatus\<close> builds from the body of a successful answer.\<close>

definition status_response :: "string \<Rightarrow> api_transaction \<Rightarrow> TransactionResponse" where
  "status_response txid d =
     \<lparr>success = True, transactionId = txid, state = api_state d,
      txHash = api_txHash d, blockHash = api_blockHash d,
      blockHeight = api_blockHeight d, gasUsed = api_gasUsed d,
      gasPrice = api_gasPrice d, data = d\<rparr>"

definition getTransactionStatus ::
  "provider \<Rightarrow> string \<Rightarrow> poll_world \<Rightarrow> (js_error + TransactionResponse) \<times> poll_world" where
  "getTransactionStatus P txid w =
     (let ev = P txid (calls w);
          w' = w\<lparr>clock := clock w + latency ev, calls := Suc (calls w)\<rparr>
      in case reply ev of
           HttpOk d \<Rightarrow> (Inr (status_response txid d), w')
         | HttpErr provider_message client_message \<Rightarrow>
             (Inl (CircleApiError
                     (''Get transaction status failed: '' @
                      or_else provider_message client_message)), w'))"

text \<open>
  The \<open>try\<close> block of one loop iteration. \<open>Inl e\<close>: it threw \<open>e\<close>;
  \<open>Inr (Some status)\<close>: it returned \<open>status\<close> from the function;
  \<open>Inr None\<close>: it ran to its end (the state was not terminal and the poller slept).
\<close>

definition poll_try ::
  "provider \<Rightarrow> string \<Rightarrow> nat \<Rightarrow> poll_world \<Rightarrow>
   (js_error + TransactionResponse option) \<times> poll_world" where
  "poll_try P txid pollInterval w =
     (case getTransactionStatus P txid w of
        (Inl e, w1) \<Rightarrow> (Inl e, w1)
      | (Inr status, w1) \<Rightarrow>
          if state status = CONFIRMED then (Inr (Some status), w1)
          else if state status = FAILED then
            (Inl (Error (''Transaction failed: '' @
                         or_else (errorReason (data status)) ''Unknown error'')), w1)
          else (Inr None, sleep pollInterval w1))"

text \<open>
  The iteration with its \<open>catch\<close> block: an error whose message includes
  \<open>Transaction failed\<close> is thrown again, any other error is logged and followed by a sleep.
\<close>

definition poll_iteration ::
  "provider \<Rightarrow> string \<Rightarrow> nat \<Rightarrow> poll_world \<Rightarrow>
   (js_error + TransactionResponse option) \<times> poll_world" where
  "poll_iteration P txid pollInterval w =
     (case poll_try P txid pollInterval w of
        (Inl e, w1) \<Rightarrow>
          if str_includes (message e) ''Transaction failed'' then (Inl e, w1)
          else (Inr None, sleep pollInterval w1)
      | (Inr r, w1) \<Rightarrow> (Inr r, w1))"

definition timeout_error :: "string \<Rightarrow> nat \<Rightarrow> js_error" where
  "timeout_error txid maxWaitTime =
     Error (''Transaction '' @ txid @ '' confirmation timeout after '' @
            string_of_nat maxWaitTime @ ''ms'')"

text \<open>
  The \<open>while (Date.now() - startTime < maxWaitTime)\<close> loop. With a zero poll interval and
  instant queries the clock never moves and the loop never ends, so the result is an
  option: \<open>None\<close> is a run that does not return.
\<close>

partial_function (option) poll_loop ::
  "provider \<Rightarrow> string \<Rightarrow> nat \<Rightarrow> nat \<Rightarrow> nat \<Rightarrow> poll_world \<Rightarrow>
   ((js_error + TransactionResponse) \<times> poll_world) option" where
  "poll_loop P txid maxWaitTime pollInterval startTime w =
     (if clock w - startTime < maxWaitTime then
        (case poll_iteration P txid pollInterval w of
           (Inl e, w1) \<Rightarrow> Some (Inl e, w1)
         | (Inr (Some status), w1) \<Rightarrow> Some (Inr status, w1)
         | (Inr None, w1) \<Rightarrow> poll_loop P txid maxWaitTime pollInterval startTime w1)
      else Some (Inl (timeout_error txid maxWaitTime), w))"

declare poll_loop.simps [code]

definition waitForTransaction ::
  "provider \<Rightarrow> string \<Rightarrow> nat \<Rightarrow> nat \<Rightarrow> poll_world \<Rightarrow>
   ((js_error + TransactionResponse) \<times> poll_world) option" where
  "waitForTransaction P txid maxWaitTime pollInterval w =
     poll_loop P txid maxWaitTime pollInterval (clock w) w"

text \<open>The defaults \<open>TIMEOUTS.TRANSACTION_CONFIRMATION\<close> and \<open>TIMEOUTS.POLLING_INTERVAL\<close>.\<close>

definition TRANSACTION_CONFIRMATION :: nat where
  "TRANSACTION_CONFIRMATION = 120000"

definition POLLING_INTERVAL :: nat where
  "POLLING_INTERVAL = 3000"


text \<open>
  Vocabulary for statements about the poller. A poll \<open>keeps_waiting\<close> when the loop
  goes on after it: the provider answers with a state other than \<open>CONFIRMED\<close> and
  \<open>FAILED\<close>, or the query throws an error that the \<open>catch\<close> block does not throw again.
  \<open>elapsed_before\<close> is the time \<open>k\<close> such polls take, starting at query number \<open>c\<close>:
  each one its latency and one poll interval.
\<close>

definition keeps_waiting :: "poll_event \<Rightarrow> bool" where
  "keeps_waiting ev =
     (case reply ev of
        HttpOk d \<Rightarrow> api_state d \<noteq> CONFIRMED \<and> api_state d \<noteq> FAILED
      | HttpErr provider_message client_message \<Rightarrow>
          \<not> str_includes (''Get transaction status failed: '' @
                           or_else provider_message client_message) ''Transaction failed'')"

definition elapsed_before :: "provider \<Rightarrow> string \<Rightarrow> nat \<Rightarrow> nat \<Rightarrow> nat \<Rightarrow> nat" where
  "elapsed_before P txid pollInterval c k =
     (\<Sum>i<k. latency (P txid (c + i)) + pollInterval)"

section \<open>Receipts and event logs\<close>

text \<open>
  A log of a transaction receipt as the chain RPC returns it, and what
  \<open>contract.interface.parseLog\<close> makes of a log: it throws, it returns \<open>null\<close> (no event of
  the interface matches), or it returns the decoded event. Of the decoded arguments the
  services read \<open>from\<close> and \<open>tokenId\<close> (a \<open>uint256\<close>, rendered by \<open>toString()\<close> in decimal).
\<close>

record raw_log =
  log_address :: string
  topics :: "string list"
  log_data :: string

record LogDescription =
  event_name :: string
  args_from :: "string option"
  args_tokenId :: "nat option"

record TransactionReceipt =
  logs :: "raw_log list"

type_synonym parse_log = "raw_log \<Rightarrow> js_error + LogDescription option"




section \<open>BlockchainService: the token id of a mint transaction\<close>









section \<open>Data of the mint workflow\<close>

text \<open>
  The records of \<open>types/index.ts\<close>, with the fields the services read. A field whose name
  is taken already carries a prefix (\<open>user_id\<close>, \<open>wallet_id\<close>, \<open>md_name\<close>, \<open>req_email\<close>,
  \<open>resp_walletAddress\<close>). Dates are millisecond time stamps, chain names are strings (the
  routes cast the request's string to \<open>SupportedBlockchain\<close> without a check), token amounts
  are the numbers \<open>parseFloat\<close> reads from the provider's strings.
\<close>

record User =
  user_id :: string
  email :: string
  walletId :: "string option"
  walletAddress :: "string option"
  createdAt :: nat
  updatedAt :: nat

record CircleWallet =
  wallet_id :: string
  address :: string
  wallet_blockchain :: string
  accountType :: string

record NFTMetadata =
  md_name :: string
  description :: string
  md_image :: string
  attributes :: "(string \<times> string) list"
  external_url :: "string option"

record MintNFTRequest =
  req_email :: string
  nftMetadata :: NFTMetadata
  blockchain :: string
  payWithUSDC :: bool

record MintNFTResponse =
  transactionHash :: string
  nftId :: string
  contractAddress :: string
  resp_walletAddress :: "string option"
  resp_blockchain :: string
  gasSponsored :: bool

record BlockchainConfig =
  chain_name :: string
  chainId :: nat
  rpcUrl :: string
  nftContractAddress :: string
  usdcContractAddress :: string
  circleBlockchain :: string

record TokenBalance =
  token :: string
  amount :: nat

record WalletBalance =
  balances :: "TokenBalance list"

text \<open>
  \<open>response.data\<close> of the SDK's \<open>createTransaction\<close>, and the object
  \<open>executeGaslessTransaction\<close> returns.
\<close>

record sdk_transaction =
  sdk_id :: "string option"
  sdk_txHash :: "string option"
  sdk_state :: "string option"

record gasless_result =
  gs_transactionId :: string
  gs_transactionHash :: string
  gs_state :: string

section \<open>The world of the mint workflow\<close>

text \<open>
  Every request the services send to the outside is recorded, with its arguments, in a
  trace. What the outside answers is given by the environment, one answer per request of
  a kind, numbered in the order the requests are made.
\<close>

datatype ext_call =
  CreateWallets nat string "string list"
  | PinJSON NFTMetadata
  | GetBalances "string option"
  | CreateTransaction "string option" string string string "string option list"
  | GetTransactionReceipt string string

fun is_CreateWallets :: "ext_call \<Rightarrow> bool" where
  "is_CreateWallets (CreateWallets n t bs) = True"
| "is_CreateWallets c = False"

fun is_PinJSON :: "ext_call \<Rightarrow> bool" where
  "is_PinJSON (PinJSON m) = True"
| "is_PinJSON c = False"

fun is_GetBalances :: "ext_call \<Rightarrow> bool" where
  "is_GetBalances (GetBalances i) = True"
| "is_GetBalances c = False"

fun is_CreateTransaction :: "ext_call \<Rightarrow> bool" where
  "is_CreateTransaction (CreateTransaction i b c f ps) = True"
| "is_CreateTransaction c = False"

fun is_GetTransactionReceipt :: "ext_call \<Rightarrow> bool" where
  "is_GetTransactionReceipt (GetTransactionReceipt b h) = True"
| "is_GetTransactionReceipt c = False"

definition count_calls :: "(ext_call \<Rightarrow> bool) \<Rightarrow> ext_call list \<Rightarrow> nat" where
  "count_calls kind tr = length (filter kind tr)"

text \<open>
  The state: the two maps of \<open>UserService\<close>, the trace, the numbers of \<open>Math.random()\<close>
  and \<open>uuidv4()\<close> calls made, and the clock of \<open>Date.now()\<close>. Both maps hold the same
  \<open>User\<close> object in the source; \<open>updateUserWallet\<close> stores the changed user under both
  keys, so a map to user values behaves alike.
\<close>

record mint_world =
  users :: "string \<rightharpoonup> User"
  usersByEmail :: "string \<rightharpoonup> User"
  trace :: "ext_call list"
  draws :: nat
  uuids :: nat
  now :: nat

text \<open>
  The environment: the configuration (\<open>config.blockchains\<close>, \<open>config.ipfs\<close>, \<open>config.usdc\<close>,
  \<open>NODE_ENV\<close>) and the answers of the outside. The configuration comes from the process
  environment, so all of it is a parameter. \<open>storage_cost_units\<close> stands for
  \<open>parseFloat(metadataStorageCost) * 10 ** decimals\<close> and \<open>format_units\<close> for the text of
  \<open>amount / 10 ** decimals\<close>. A \<open>Math.random()\<close> result is given by what its caller makes
  of it: its digits after the point in base 36 or 16, or \<open>Math.floor\<close> of its 10000-fold.
\<close>

record mint_env =
  blockchains :: "string \<rightharpoonup> BlockchainConfig"
  gateway :: string
  pinataApiKey :: "string option"
  pinataSecretKey :: "string option"
  metadataStorageCost :: string
  storage_cost_units :: nat
  format_units :: "nat \<Rightarrow> string"
  NODE_ENV :: "string option"
  uuidv4 :: "nat \<Rightarrow> string"
  random_base36 :: "nat \<Rightarrow> nat list"
  random_base16 :: "nat \<Rightarrow> nat list"
  random_10000 :: "nat \<Rightarrow> nat"
  sdk_createWallets :: "nat \<Rightarrow> js_error + CircleWallet list option"
  pinJSONToIPFS :: "nat \<Rightarrow> js_error + string"
  get_balances :: "nat \<Rightarrow> js_error + WalletBalance"
  sdk_createTransaction :: "nat \<Rightarrow> js_error + sdk_transaction option"
  getTransactionReceipt :: "nat \<Rightarrow> js_error + TransactionReceipt option"
  parseLog :: parse_log

text \<open>
  An asynchronous function that may throw: it maps the state to its result, or the error
  it throws, and the state it leaves. \<open>and_then\<close> is \<open>await\<close> followed by the rest of the
  body, \<open>try_catch\<close> a \<open>try\<close> block with its handler.
\<close>

type_synonym 'a prog = "mint_world \<Rightarrow> (js_error + 'a) \<times> mint_world"

definition ret :: "'a \<Rightarrow> 'a prog" where
  "ret x w = (Inr x, w)"

definition throw :: "js_error \<Rightarrow> 'a prog" where
  "throw e w = (Inl e, w)"

definition and_then :: "'a prog \<Rightarrow> ('a \<Rightarrow> 'b prog) \<Rightarrow> 'b prog" where
  "and_then m f w = (case m w of (Inl e, w') \<Rightarrow> (Inl e, w') | (Inr x, w') \<Rightarrow> f x w')"

definition try_catch :: "'a prog \<Rightarrow> (js_error \<Rightarrow> 'a prog) \<Rightarrow> 'a prog" where
  "try_catch m handler w =
     (case m w of (Inl e, w') \<Rightarrow> handler e w' | (Inr x, w') \<Rightarrow> (Inr x, w'))"

text \<open>A request to the outside: it is appended to the trace and answered.\<close>

definition send :: "ext_call \<Rightarrow> (js_error + 'a) \<Rightarrow> 'a prog" where
  "send c answer w = (answer, w\<lparr>trace := trace w @ [c]\<rparr>)"

text \<open>A JavaScript string used as a condition: \<open>undefined\<close> and \<open>''\<close> are falsy.\<close>

definition truthy :: "string option \<Rightarrow> bool" where
  "truthy s = (case s of None \<Rightarrow> False | Some t \<Rightarrow> t \<noteq> [])"

text \<open>The digits of \<open>Number.prototype.toString\<close> with a radix up to 36.\<close>

definition digit36 :: "nat \<Rightarrow> char" where
  "digit36 d = ''0123456789abcdefghijklmnopqrstuvwxyz'' ! (d mod 36)"

definition lower_char :: "char \<Rightarrow> char" where
  "lower_char c =
     (case map_of (zip ''ABCDEFGHIJKLMNOPQRSTUVWXYZ'' ''abcdefghijklmnopqrstuvwxyz'') c of
        None \<Rightarrow> c
      | Some l \<Rightarrow> l)"

definition toLowerCase :: "string \<Rightarrow> string" where
  "toLowerCase s = map lower_char s"

text \<open>\<open>Math.random().toString(36).substring(2, 15)\<close> and \<open>Math.random().toString(16).substring(2, 66)\<close>.\<close>

definition random_string36 :: "mint_env \<Rightarrow> string prog" where
  "random_string36 env w =
     (Inr (take 13 (map digit36 (random_base36 env (draws w)))), w\<lparr>draws := Suc (draws w)\<rparr>)"

definition random_string16 :: "mint_env \<Rightarrow> string prog" where
  "random_string16 env w =
     (Inr (take 64 (map digit36 (random_base16 env (draws w)))), w\<lparr>draws := Suc (draws w)\<rparr>)"

definition random_floor10000 :: "mint_env \<Rightarrow> nat prog" where
  "random_floor10000 env w = (Inr (random_10000 env (draws w)), w\<lparr>draws := Suc (draws w)\<rparr>)"

section \<open>UserService\<close>

text \<open>
  The handlers \<open>catch (error) { throw new Error(`Failed to ...: ${error.message}`) }\<close> of
  \<open>createUser\<close> and \<open>getUserByEmail\<close> guard bodies that cannot throw.
\<close>

definition getUserByEmail :: "string \<Rightarrow> User option prog" where
  "getUserByEmail mail w = (Inr (usersByEmail w mail), w)"

definition createUser :: "mint_env \<Rightarrow> string \<Rightarrow> string option \<Rightarrow> string option \<Rightarrow> User prog" where
  "createUser env mail wid waddr w =
     (case usersByEmail w mail of
        Some existingUser \<Rightarrow> (Inr existingUser, w)
      | None \<Rightarrow>
          (let user = \<lparr>user_id = uuidv4 env (uuids w), email = mail, walletId = wid,
                       walletAddress = waddr, createdAt = now w, updatedAt = now w\<rparr>
           in (Inr user,
               w\<lparr>users := (users w)(user_id user \<mapsto> user),
                 usersByEmail := (usersByEmail w)(mail \<mapsto> user),
                 uuids := Suc (uuids w)\<rparr>)))"

definition updateUserWallet :: "string \<Rightarrow> string \<Rightarrow> string \<Rightarrow> User prog" where
  "updateUserWallet userId wid waddr =
     try_catch
       (\<lambda>w. case users w userId of
              None \<Rightarrow> (Inl (Error ''User not found''), w)
            | Some user \<Rightarrow>
                (let user' = user\<lparr>walletId := Some wid, walletAddress := Some waddr,
                                 updatedAt := now w\<rparr>
                 in (Inr user',
                     w\<lparr>users := (users w)(userId \<mapsto> user'),
                       usersByEmail := (usersByEmail w)(email user' \<mapsto> user')\<rparr>)))
       (\<lambda>e. throw (Error (''Failed to update user wallet: '' @ message e)))"

section \<open>CircleService of the mint workflow\<close>

text \<open>
  \<open>createWallet\<close> ignores its argument but for the log: it always asks the SDK for one
  \<open>SCA\<close> wallet on \<open>ETH-SEPOLIA\<close>.
\<close>

definition createWallet :: "mint_env \<Rightarrow> string list \<Rightarrow> CircleWallet list prog" where
  "createWallet env bcs =
     try_catch
       (\<lambda>w. and_then
               (send (CreateWallets 1 ''SCA'' [''ETH-SEPOLIA''])
                  (sdk_createWallets env (count_calls is_CreateWallets (trace w))))
               (\<lambda>response.
                  let wallets = (case response of None \<Rightarrow> [] | Some ws \<Rightarrow> ws)
                  in if length wallets = 0
                     then throw (Error ''No wallets created in response'')
                     else ret wallets) w)
       (\<lambda>e. throw (Error (''Circle API: Failed to create SCA wallet - '' @ message e)))"

definition getWalletBalance :: "mint_env \<Rightarrow> string option \<Rightarrow> WalletBalance prog" where
  "getWalletBalance env wid =
     try_catch
       (\<lambda>w. send (GetBalances wid)
               (get_balances env (count_calls is_GetBalances (trace w))) w)
       (\<lambda>e. throw (Error (''Circle API: Failed to get wallet balance - '' @ message e)))"

text \<open>
  \<open>executeGaslessTransaction\<close>, called without an amount. \<open>Math.random()\<close> is called for
  the hash only when the answer carries none. In development mode a failure is answered
  with a made-up success.
\<close>

definition executeGaslessTransaction ::
  "mint_env \<Rightarrow> string option \<Rightarrow> string \<Rightarrow> string \<Rightarrow> string option list \<Rightarrow> string \<Rightarrow>
   gasless_result prog" where
  "executeGaslessTransaction env wid contract abiFunctionSignature abiParameters bc =
     try_catch
       (\<lambda>w. and_then
               (send (CreateTransaction wid bc contract abiFunctionSignature abiParameters)
                  (sdk_createTransaction env (count_calls is_CreateTransaction (trace w))))
               (\<lambda>response.
                  case response of
                    None \<Rightarrow> throw (Error ''No response data from Circle transaction API'')
                  | Some d \<Rightarrow>
                      and_then
                        (if truthy (sdk_txHash d) then ret (or_else (sdk_txHash d) [])
                         else and_then (random_string16 env) (\<lambda>r. ret (''0x'' @ r)))
                        (\<lambda>h. \<lambda>w'.
                           ret \<lparr>gs_transactionId =
                                  or_else (sdk_id d) (''tx_'' @ string_of_nat (now w')),
                                gs_transactionHash = h,
                                gs_state = or_else (sdk_state d) ''CONFIRMED''\<rparr> w')) w)
       (\<lambda>e. if NODE_ENV env = Some ''development''
             then and_then (random_string16 env)
                    (\<lambda>r. \<lambda>w'.
                       ret \<lparr>gs_transactionId = ''dev_tx_'' @ string_of_nat (now w'),
                            gs_transactionHash = ''0x'' @ r,
                            gs_state = ''CONFIRMED''\<rparr> w')
             else throw (Error (''Circle API: Gasless transaction failed - '' @ message e)))"

section \<open>NFTService\<close>

definition internalMapping :: "(string \<times> string) list" where
  "internalMapping =
     [(''ETH-SEPOLIA'', ''ethereum''), (''BASE-SEPOLIA'', ''base''), (''ETH'', ''ethereum''),
      (''BASE'', ''base''), (''MATIC'', ''polygon''), (''MATIC-AMOY'', ''polygon'')]"

definition mapToInternalBlockchain :: "string \<Rightarrow> string" where
  "mapToInternalBlockchain bc =
     (case map_of internalMapping bc of None \<Rightarrow> ''ethereum'' | Some internal \<Rightarrow> internal)"

definition getBlockchainConfig :: "mint_env \<Rightarrow> string \<Rightarrow> BlockchainConfig prog" where
  "getBlockchainConfig env bc =
     (case blockchains env bc of
        None \<Rightarrow> throw (Error (''Unsupported blockchain: '' @ bc))
      | Some config_chain \<Rightarrow> ret config_chain)"

text \<open>
  \<open>uploadToPinata\<close> posts the metadata and returns gateway plus hash; its handler logs and
  throws the error on. \<open>createMockIPFS\<close> makes a hash of two random strings.
\<close>

definition uploadToPinata :: "mint_env \<Rightarrow> NFTMetadata \<Rightarrow> string prog" where
  "uploadToPinata env metadata =
     try_catch
       (\<lambda>w. and_then
               (send (PinJSON metadata) (pinJSONToIPFS env (count_calls is_PinJSON (trace w))))
               (\<lambda>ipfsHash. ret (gateway env @ ipfsHash)) w)
       (\<lambda>e. throw e)"

definition createMockIPFS :: "mint_env \<Rightarrow> NFTMetadata \<Rightarrow> string prog" where
  "createMockIPFS env metadata =
     and_then (random_string36 env) (\<lambda>r1.
     and_then (random_string36 env) (\<lambda>r2.
     ret (gateway env @ (''QmR'' @ r1 @ r2 @ ''Abc''))))"

definition uploadMetadataToIPFS :: "mint_env \<Rightarrow> NFTMetadata \<Rightarrow> string prog" where
  "uploadMetadataToIPFS env metadata =
     try_catch
       (if truthy (pinataApiKey env) \<and> truthy (pinataSecretKey env)
        then uploadToPinata env metadata
        else createMockIPFS env metadata)
       (\<lambda>e. createMockIPFS env metadata)"

definition handleUSDCPayment :: "mint_env \<Rightarrow> string option \<Rightarrow> BlockchainConfig \<Rightarrow> unit prog" where
  "handleUSDCPayment env wid blockchainConfig =
     try_catch
       (and_then (getWalletBalance env wid) (\<lambda>balance.
          case find (\<lambda>b. toLowerCase (token b) =
                          toLowerCase (usdcContractAddress blockchainConfig))
                    (balances balance) of
            None \<Rightarrow> throw (Error ''No USDC balance found in wallet'')
          | Some usdcBalance \<Rightarrow>
              if amount usdcBalance < storage_cost_units env
              then throw (Error (''Insufficient USDC balance. Required: '' @
                                 metadataStorageCost env @ '' USDC, Available: '' @
                                 format_units env (amount usdcBalance) @ '' USDC''))
              else ret ()))
       (\<lambda>e. throw (Error (''USDC payment failed: '' @ message e)))"

definition ZeroAddress :: string where
  "ZeroAddress = ''0x'' @ replicate 40 (CHR ''0'')"

text \<open>
  The loop over the logs in \<open>parseTokenIdFromTransaction\<close>: \<open>Some\<close> token id when the
  loop returns, \<open>None\<close> when it runs to its end. A log whose decoding, or whose
  \<open>tokenId.toString()\<close>, throws is skipped by the inner \<open>catch\<close>.
\<close>

fun scan_logs :: "parse_log \<Rightarrow> raw_log list \<Rightarrow> string option" where
  "scan_logs parse [] = None"
| "scan_logs parse (log # rest) =
     (case parse log of
        Inl e \<Rightarrow> scan_logs parse rest
      | Inr None \<Rightarrow> scan_logs parse rest
      | Inr (Some parsed) \<Rightarrow>
          if event_name parsed = ''Transfer'' \<and> args_from parsed = Some ZeroAddress then
            (case args_tokenId parsed of
               None \<Rightarrow> scan_logs parse rest
             | Some tokenId \<Rightarrow> Some (string_of_nat tokenId))
          else if event_name parsed = ''NFTMinted'' then
            (case args_tokenId parsed of
               None \<Rightarrow> scan_logs parse rest
             | Some tokenId \<Rightarrow> Some (string_of_nat tokenId))
          else scan_logs parse rest)"

text \<open>
  The service has one RPC provider per entry of \<open>config.blockchains\<close>. The handler of
  \<open>parseTokenIdFromTransaction\<close> logs the error and throws it on.
\<close>

definition parseTokenIdFromTransaction ::
  "mint_env \<Rightarrow> string \<Rightarrow> BlockchainConfig \<Rightarrow> string \<Rightarrow> string prog" where
  "parseTokenIdFromTransaction env hash blockchainConfig internalBlockchain =
     try_catch
       (if blockchains env internalBlockchain = None
        then throw (Error (''Provider not available for '' @ internalBlockchain))
        else (\<lambda>w. and_then
                (send (GetTransactionReceipt internalBlockchain hash)
                   (getTransactionReceipt env
                      (count_calls is_GetTransactionReceipt (trace w))))
                (\<lambda>receipt.
                   case receipt of
                     None \<Rightarrow> throw (Error ''Transaction receipt not found or no logs'')
                   | Some r \<Rightarrow>
                       if length (logs r) = 0
                       then throw (Error ''Transaction receipt not found or no logs'')
                       else (case scan_logs (parseLog env) (logs r) of
                               Some tokenId \<Rightarrow> ret tokenId
                             | None \<Rightarrow>
                                 throw (Error ''No mint event found in transaction logs''))) w))
       (\<lambda>e. throw e)"

text \<open>
  The \<open>try\<close> block of \<open>mintNFT\<close>, in three parts: the block that creates a wallet for
  a user who lacks the wallet id or the wallet address, the statements after that block
  (as a function of the user they work with), and the whole. The requested blockchain is
  read from the request for the log only; the chain of the mint is the constant
  \<open>ETH-SEPOLIA\<close>.
\<close>

definition wallet_block :: "mint_env \<Rightarrow> string \<Rightarrow> User \<Rightarrow> User prog" where
  "wallet_block env gaslessBlockchain user0 =
     (if \<not> truthy (walletId user0) \<or> \<not> truthy (walletAddress user0)
      then and_then (createWallet env [gaslessBlockchain]) (\<lambda>wallets.
             case find (\<lambda>w. wallet_blockchain w = gaslessBlockchain) wallets of
               None \<Rightarrow>
                 throw (Error (''Failed to create SCA wallet for '' @ gaslessBlockchain))
             | Some wallet \<Rightarrow>
                 updateUserWallet (user_id user0) (wallet_id wallet) (address wallet))
      else ret user0)"

definition token_id_block ::
  "mint_env \<Rightarrow> gasless_result \<Rightarrow> BlockchainConfig \<Rightarrow> string \<Rightarrow> string prog" where
  "token_id_block env transaction blockchainConfig internalBlockchain =
     try_catch
       (if gs_transactionHash transaction \<noteq> [] \<and>
           \<not> prefix ''dev_tx_'' (gs_transactionHash transaction)
        then parseTokenIdFromTransaction env (gs_transactionHash transaction)
               blockchainConfig internalBlockchain
        else and_then (random_floor10000 env) (\<lambda>n. ret (string_of_nat n)))
       (\<lambda>parseError. ret ''unknown'')"

definition mint_with_user ::
  "mint_env \<Rightarrow> MintNFTRequest \<Rightarrow> string \<Rightarrow> string \<Rightarrow> BlockchainConfig \<Rightarrow> User \<Rightarrow>
   MintNFTResponse prog" where
  "mint_with_user env req gaslessBlockchain internalBlockchain blockchainConfig user =
     and_then (uploadMetadataToIPFS env (nftMetadata req)) (\<lambda>metadataUri.
     and_then (if payWithUSDC req
               then handleUSDCPayment env (walletId user) blockchainConfig
               else ret ()) (\<lambda>paid.
     and_then (executeGaslessTransaction env (walletId user)
                 (nftContractAddress blockchainConfig) ''mint(address,string)''
                 [walletAddress user, Some metadataUri] gaslessBlockchain) (\<lambda>transaction.
     and_then (token_id_block env transaction blockchainConfig internalBlockchain) (\<lambda>tokenId.
     ret \<lparr>transactionHash = gs_transactionHash transaction,
          nftId = tokenId,
          contractAddress = nftContractAddress blockchainConfig,
          resp_walletAddress = walletAddress user,
          resp_blockchain = internalBlockchain,
          gasSponsored = True\<rparr>))))"

definition mintNFT_try :: "mint_env \<Rightarrow> MintNFTRequest \<Rightarrow> MintNFTResponse prog" where
  "mintNFT_try env req =
     (let gaslessBlockchain = ''ETH-SEPOLIA'';
          internalBlockchain = mapToInternalBlockchain gaslessBlockchain
      in
      and_then (getBlockchainConfig env internalBlockchain) (\<lambda>blockchainConfig.
      and_then (getUserByEmail (req_email req)) (\<lambda>found.
      and_then (case found of
                  None \<Rightarrow> createUser env (req_email req) None None
                | Some u \<Rightarrow> ret u) (\<lambda>user0.
      and_then (wallet_block env gaslessBlockchain user0) (\<lambda>user.
      mint_with_user env req gaslessBlockchain internalBlockchain blockchainConfig user)))))"

text \<open>\<open>mintNFT\<close> with its \<open>catch\<close> block, which logs the error and throws a new one.\<close>

definition mintNFT :: "mint_env \<Rightarrow> MintNFTRequest \<Rightarrow> MintNFTResponse prog" where
  "mintNFT env req =
     try_catch (mintNFT_try env req)
       (\<lambda>e. throw (Error (''Failed to mint NFT: '' @ message e)))"

section \<open>The batch-mint route\<close>

record batch_error =
  index :: nat
  nftName :: string
  error :: string

record batch_response =
  http_status :: nat
  resp_success :: bool
  resp_message :: string
  successful :: "MintNFTResponse list"
  errors :: "batch_error list"
  totalRequested :: nat
  totalSuccessful :: nat
  totalFailed :: nat

text \<open>The request the handler builds for item \<open>i\<close>: only the first item may pay in USDC.\<close>

definition batch_request :: "string \<Rightarrow> string \<Rightarrow> bool \<Rightarrow> nat \<Rightarrow> NFTMetadata \<Rightarrow> MintNFTRequest" where
  "batch_request mail bc pay i metadata =
     \<lparr>req_email = mail, nftMetadata = metadata, blockchain = bc,
      payWithUSDC = (if i = 0 then pay else False)\<rparr>"

text \<open>
  The \<open>for\<close> loop of the handler over the items from index \<open>i\<close> on, for any mint function
  and any effect of the one-second pause after a successful item.
\<close>

fun batch_loop ::
  "(MintNFTRequest \<Rightarrow> 'w \<Rightarrow> (js_error + MintNFTResponse) \<times> 'w) \<Rightarrow> ('w \<Rightarrow> 'w) \<Rightarrow>
   string \<Rightarrow> string \<Rightarrow> bool \<Rightarrow> nat \<Rightarrow> NFTMetadata list \<Rightarrow>
   MintNFTResponse list \<Rightarrow> batch_error list \<Rightarrow> 'w \<Rightarrow>
   (MintNFTResponse list \<times> batch_error list) \<times> 'w" where
  "batch_loop mint pause mail bc pay i [] results errs w = ((results, errs), w)"
| "batch_loop mint pause mail bc pay i (metadata # rest) results errs w =
     (case mint (batch_request mail bc pay i metadata) w of
        (Inr result, w1) \<Rightarrow>
          batch_loop mint pause mail bc pay (Suc i) rest (results @ [result]) errs (pause w1)
      | (Inl e, w1) \<Rightarrow>
          batch_loop mint pause mail bc pay (Suc i) rest results
            (errs @ [\<lparr>index = i,
                      nftName = or_else (Some (md_name metadata)) ''Unknown'',
                      error = message e\<rparr>]) w1)"

definition batch_mint_handler ::
  "(MintNFTRequest \<Rightarrow> 'w \<Rightarrow> (js_error + MintNFTResponse) \<times> 'w) \<Rightarrow> ('w \<Rightarrow> 'w) \<Rightarrow>
   string \<Rightarrow> NFTMetadata list \<Rightarrow> string \<Rightarrow> bool \<Rightarrow> 'w \<Rightarrow> batch_response \<times> 'w" where
  "batch_mint_handler mint pause mail nfts bc pay w =
     (case batch_loop mint pause mail bc pay 0 nfts [] [] w of
        ((results, errs), w') \<Rightarrow>
          (\<lparr>http_status = (if length results > 0 then 201 else 400),
            resp_success = (length errs < length nfts),
            resp_message = ''Batch mint completed: '' @ string_of_nat (length results) @
                           '' successful, '' @ string_of_nat (length errs) @ '' failed'',
            successful = results,
            errors = errs,
            totalRequested = length nfts,
            totalSuccessful = length results,
            totalFailed = length errs\<rparr>, w'))"

text \<open>The route as wired: it mints with \<open>nftService.mintNFT\<close> and pauses 1000 ms.\<close>

definition batch_mint :: "mint_env \<Rightarrow> string \<Rightarrow> NFTMetadata list \<Rightarrow> string \<Rightarrow> bool \<Rightarrow>
   mint_world \<Rightarrow> batch_response \<times> mint_world" where
  "batch_mint env = batch_mint_handler (mintNFT env) (\<lambda>w. w\<lparr>now := now w + 1000\<rparr>)"

section \<open>Vocabulary for statements about the mint workflow\<close>

text \<open>
  \<open>calls_only ok m\<close>: whatever the state, the requests \<open>m\<close> sends to the outside all
  satisfy \<open>ok\<close>. \<open>keeps_users m\<close>: \<open>m\<close> leaves both maps of the ledger as they are.
\<close>

definition calls_only :: "(ext_call \<Rightarrow> bool) \<Rightarrow> 'a prog \<Rightarrow> bool" where
  "calls_only ok m = (\<forall>w. \<exists>ext. trace (snd (m w)) = trace w @ ext \<and> list_all ok ext)"

definition keeps_users :: "'a prog \<Rightarrow> bool" where
  "keeps_users m =
     (\<forall>w. users (snd (m w)) = users w \<and> usersByEmail (snd (m w)) = usersByEmail w)"

text \<open>
  A request made with the wallet cached on user \<open>u\<close>: it creates no wallet, and a
  submitted transaction comes from \<open>u\<close>'s wallet id and mints to \<open>u\<close>'s wallet address.
\<close>

fun reuses_wallet :: "User \<Rightarrow> ext_call \<Rightarrow> bool" where
  "reuses_wallet u (CreateWallets n t bs) = False"
| "reuses_wallet u (CreateTransaction wid bc c f ps) =
     (wid = walletId u \<and> take 1 ps = [walletAddress u])"
| "reuses_wallet u c = True"

text \<open>A request that names a chain names \<open>ETH-SEPOLIA\<close>.\<close>

fun on_ETH_SEPOLIA :: "ext_call \<Rightarrow> bool" where
  "on_ETH_SEPOLIA (CreateWallets n t bs) = (bs = [''ETH-SEPOLIA''])"
| "on_ETH_SEPOLIA (CreateTransaction wid bc c f ps) = (bc = ''ETH-SEPOLIA'')"
| "on_ETH_SEPOLIA c = True"

text \<open>
  The batch in the words of its specification: the items are minted one after the other
  in list order, each in the state the one before left (after the pause, when that one
  succeeded); \<open>item_outcomes\<close> lists for every item its index, its metadata and what its
  mint returned or threw. The results kept are those of the items that returned, the
  errors recorded those of the items that threw.
\<close>

fun item_outcomes ::
  "(MintNFTRequest \<Rightarrow> 'w \<Rightarrow> (js_error + MintNFTResponse) \<times> 'w) \<Rightarrow> ('w \<Rightarrow> 'w) \<Rightarrow>
   string \<Rightarrow> string \<Rightarrow> bool \<Rightarrow> nat \<Rightarrow> NFTMetadata list \<Rightarrow> 'w \<Rightarrow>
   (nat \<times> NFTMetadata \<times> (js_error + MintNFTResponse)) list" where
  "item_outcomes mint pause mail bc pay i [] w = []"
| "item_outcomes mint pause mail bc pay i (metadata # rest) w =
     (case mint (batch_request mail bc pay i metadata) w of
        (Inr result, w1) \<Rightarrow>
          (i, metadata, Inr result) #
          item_outcomes mint pause mail bc pay (Suc i) rest (pause w1)
      | (Inl e, w1) \<Rightarrow>
          (i, metadata, Inl e) # item_outcomes mint pause mail bc pay (Suc i) rest w1)"

definition kept_results ::
  "(nat \<times> NFTMetadata \<times> (js_error + MintNFTResponse)) list \<Rightarrow> MintNFTResponse list" where
  "kept_results outs =
     concat (map (\<lambda>(i, metadata, r). case r of Inr result \<Rightarrow> [result] | Inl e \<Rightarrow> []) outs)"

definition recorded_errors ::
  "(nat \<times> NFTMetadata \<times> (js_error + MintNFTResponse)) list \<Rightarrow> batch_error list" where
  "recorded_errors outs =
     concat (map (\<lambda>(i, metadata, r).
                    case r of
                      Inr result \<Rightarrow> []
                    | Inl e \<Rightarrow>
                        [\<lparr>index = i, nftName = or_else (Some (md_name metadata)) ''Unknown'',
                          error = message e\<rparr>]) outs)"



section \<open>Example runs of the poller\<close>

definition example_tx :: "tx_state \<Rightarrow> api_transaction" where
  "example_tx s =
     \<lparr>api_state = s, api_txHash = (if s = CONFIRMED then Some ''0xabc'' else None),
      api_blockHash = None, api_blockHeight = None, api_gasUsed = None, api_gasPrice = None,
      errorReason = (if s = FAILED then Some ''execution reverted'' else None)\<rparr>"

text \<open>A provider that answers \<open>SENT\<close> twice and then \<open>CONFIRMED\<close>, 20 ms per query.\<close>

definition sent_sent_confirmed :: provider where
  "sent_sent_confirmed txid i =
     \<lparr>latency = 20, reply = HttpOk (example_tx (if i < 2 then SENT else CONFIRMED))\<rparr>"

text \<open>A provider that answers \<open>SENT\<close> once and then \<open>FAILED\<close>.\<close>

definition sent_then_failed :: provider where
  "sent_then_failed txid i =
     \<lparr>latency = 20, reply = HttpOk (example_tx (if i < 1 then SENT else FAILED))\<rparr>"

text \<open>Providers that always answer \<open>QUEUED\<close>: at once, or after one second.\<close>

definition always_queued :: provider where
  "always_queued txid i = \<lparr>latency = 0, reply = HttpOk (example_tx QUEUED)\<rparr>"

definition slow_queued :: provider where
  "slow_queued txid i = \<lparr>latency = 1000, reply = HttpOk (example_tx QUEUED)\<rparr>"

text \<open>
  A provider whose first status query fails with an HTTP error whose body carries the
  message \<open>Transaction failed\<close>, and whose later queries answer \<open>CONFIRMED\<close>; and one whose
  odd-numbered queries time out in the HTTP client.
\<close>

definition throws_then_confirmed :: provider where
  "throws_then_confirmed txid i =
     \<lparr>latency = 20,
      reply = (if i = 0 then HttpErr (Some ''Transaction failed'')
                                     ''Request failed with status code 500''
               else HttpOk (example_tx CONFIRMED))\<rparr>"

definition flaky_then_confirmed :: provider where
  "flaky_then_confirmed txid i =
     \<lparr>latency = 20,
      reply = (if even i then HttpErr None ''timeout of 30000ms exceeded''
               else HttpOk (example_tx CONFIRMED))\<rparr>"

section \<open>Example inputs of the receipt parser and the mint workflow\<close>

text \<open>
  A contract interface in miniature: a log without topics does not decode (\<open>parseLog\<close>
  throws), a log whose first topic is \<open>NFTMinted\<close> or \<open>Transfer\<close> decodes to that event
  with token id 42, any other log matches no event.
\<close>

definition example_parse :: parse_log where
  "example_parse log =
     (case topics log of
        [] \<Rightarrow> Inl (Error ''data out-of-bounds'')
      | t # ts \<Rightarrow>
          if t = ''NFTMinted'' then
            Inr (Some \<lparr>event_name = ''NFTMinted'', args_from = None, args_tokenId = Some 42\<rparr>)
          else if t = ''Transfer'' then
            Inr (Some \<lparr>event_name = ''Transfer'', args_from = Some ZeroAddress,
                       args_tokenId = Some 42\<rparr>)
          else Inr None)"

definition example_log :: "string list \<Rightarrow> raw_log" where
  "example_log ts = \<lparr>log_address = ''0xC0FFEE'', topics = ts, log_data = ''0x''\<rparr>"

definition example_config :: BlockchainConfig where
  "example_config =
     \<lparr>chain_name = ''Ethereum Sepolia'', chainId = 11155111,
      rpcUrl = ''https://rpc.sepolia.org'', nftContractAddress = ''0xC0FFEE'',
      usdcContractAddress = ''0x1c7D'', circleBlockchain = ''ETH-SEPOLIA''\<rparr>"

definition example_wallet :: CircleWallet where
  "example_wallet =
     \<lparr>wallet_id = ''wallet-1'', address = ''0xA11CE'', wallet_blockchain = ''ETH-SEPOLIA'',
      accountType = ''SCA''\<rparr>"

definition example_metadata :: "string \<Rightarrow> NFTMetadata" where
  "example_metadata n =
     \<lparr>md_name = n, description = ''An example'', md_image = ''https://example.com/1.png'',
      attributes = [], external_url = None\<rparr>"

definition example_request :: MintNFTRequest where
  "example_request =
     \<lparr>req_email = ''a@x.com'', nftMetadata = example_metadata ''N1'',
      blockchain = ''ETH-SEPOLIA'', payWithUSDC = False\<rparr>"

text \<open>
  An environment in which everything works: no pinning service is configured, the SDK
  creates the example wallet and confirms every transaction with hash \<open>0xabc\<close>, and the
  receipt holds one \<open>NFTMinted\<close> log.
\<close>

definition example_env :: mint_env where
  "example_env =
     \<lparr>blockchains = [''ethereum'' \<mapsto> example_config],
      gateway = ''https://ipfs.io/ipfs/'',
      pinataApiKey = None,
      pinataSecretKey = None,
      metadataStorageCost = ''1'',
      storage_cost_units = 1000000,
      format_units = (\<lambda>n. string_of_nat (n div 1000000)),
      NODE_ENV = Some ''production'',
      uuidv4 = (\<lambda>n. ''user-'' @ string_of_nat n),
      random_base36 = (\<lambda>n. [10, 11, 12]),
      random_base16 = (\<lambda>n. [13, 14, 15]),
      random_10000 = (\<lambda>n. 7),
      sdk_createWallets = (\<lambda>n. Inr (Some [example_wallet])),
      pinJSONToIPFS = (\<lambda>n. Inl (Error ''Network Error'')),
      get_balances = (\<lambda>n. Inr \<lparr>balances = []\<rparr>),
      sdk_createTransaction =
        (\<lambda>n. Inr (Some \<lparr>sdk_id = Some ''tx-1'', sdk_txHash = Some ''0xabc'',
                         sdk_state = Some ''CONFIRMED''\<rparr>)),
      getTransactionReceipt = (\<lambda>n. Inr (Some \<lparr>logs = [example_log [''NFTMinted'']]\<rparr>)),
      parseLog = example_parse\<rparr>"

definition empty_world :: mint_world where
  "empty_world =
     \<lparr>users = Map.empty, usersByEmail = Map.empty, trace = [], draws = 0, uuids = 0,
      now = 1700000000000\<rparr>"

text \<open>The same environment, but the second transaction submission is refused.\<close>

definition flaky_submit_env :: mint_env where
  "flaky_submit_env =
     example_env\<lparr>sdk_createTransaction :=
       (\<lambda>n. if n = 1 then Inl (Error ''Request failed with status code 500'')
            else sdk_createTransaction example_env n)\<rparr>"


text \<open>Users of the example: one with a wallet, one with a wallet id but no address.\<close>

definition user_with_wallet :: User where
  "user_with_wallet =
     \<lparr>user_id = ''user-7'', email = ''a@x.com'', walletId = Some ''wallet-0'',
      walletAddress = Some ''0xB0B'', createdAt = 1600000000000, updatedAt = 1600000000000\<rparr>"

definition user_without_address :: User where
  "user_without_address = user_with_wallet\<lparr>walletAddress := None\<rparr>"

definition world_with :: "User \<Rightarrow> mint_world" where
  "world_with u =
     empty_world\<lparr>users := [user_id u \<mapsto> u], usersByEmail := [email u \<mapsto> u]\<rparr>"








section \<open>Strings\<close>

lemma str_includes_sublist: "str_includes s n \<longleftrightarrow> sublist n s"
  by (induction s) (auto simp: sublist_Cons_right)

lemma str_includes_prefix [simp]: "str_includes (n @ r) n"
  by (simp add: str_includes_sublist)

section \<open>The poller, one iteration at a time\<close>

lemma poll_loop_exit:
  "\<not> clock w - startTime < maxWaitTime \<Longrightarrow>
   poll_loop P txid maxWaitTime pollInterval startTime w =
     Some (Inl (timeout_error txid maxWaitTime), w)"
  by (subst poll_loop.simps) simp

lemma poll_loop_step:
  "clock w - startTime < maxWaitTime \<Longrightarrow>
   poll_loop P txid maxWaitTime pollInterval startTime w =
     (case poll_iteration P txid pollInterval w of
        (Inl e, w1) \<Rightarrow> Some (Inl e, w1)
      | (Inr (Some status), w1) \<Rightarrow> Some (Inr status, w1)
      | (Inr None, w1) \<Rightarrow> poll_loop P txid maxWaitTime pollInterval startTime w1)"
  by (subst poll_loop.simps) simp

lemma poll_iteration_waiting:
  "keeps_waiting (P txid (calls w)) \<Longrightarrow>
   poll_iteration P txid pollInterval w =
     (Inr None, \<lparr>clock = clock w + latency (P txid (calls w)) + pollInterval,
                 calls = Suc (calls w)\<rparr>)"
  by (cases "reply (P txid (calls w))")
     (simp_all add: keeps_waiting_def poll_iteration_def poll_try_def
        getTransactionStatus_def sleep_def CircleApiError_def Let_def status_response_def)

lemma poll_iteration_confirmed:
  "reply (P txid (calls w)) = HttpOk d \<Longrightarrow> api_state d = CONFIRMED \<Longrightarrow>
   poll_iteration P txid pollInterval w =
     (Inr (Some (status_response txid d)),
      \<lparr>clock = clock w + latency (P txid (calls w)), calls = Suc (calls w)\<rparr>)"
  by (simp add: poll_iteration_def poll_try_def getTransactionStatus_def Let_def
      status_response_def)

lemma poll_iteration_failed:
  "reply (P txid (calls w)) = HttpOk d \<Longrightarrow> api_state d = FAILED \<Longrightarrow>
   poll_iteration P txid pollInterval w =
     (Inl (Error (''Transaction failed: '' @ or_else (errorReason d) ''Unknown error'')),
      \<lparr>clock = clock w + latency (P txid (calls w)), calls = Suc (calls w)\<rparr>)"
  by (simp add: poll_iteration_def poll_try_def getTransactionStatus_def Let_def Error_def
      status_response_def)

lemma poll_iteration_marked_error:
  "reply (P txid (calls w)) = HttpErr pm cm \<Longrightarrow>
   str_includes (''Get transaction status failed: '' @ or_else pm cm) ''Transaction failed'' \<Longrightarrow>
   poll_iteration P txid pollInterval w =
     (Inl (CircleApiError (''Get transaction status failed: '' @ or_else pm cm)),
      \<lparr>clock = clock w + latency (P txid (calls w)), calls = Suc (calls w)\<rparr>)"
  by (simp add: poll_iteration_def poll_try_def getTransactionStatus_def Let_def
      CircleApiError_def)

lemma elapsed_before_Suc:
  "elapsed_before P txid iv c (Suc k) =
     latency (P txid c) + iv + elapsed_before P txid iv (Suc c) k"
  by (induction k) (simp_all add: elapsed_before_def)

text \<open>While the polls keep waiting and the budget lasts, the loop just moves on.\<close>

lemma poll_loop_skip:
  assumes "\<forall>i<k. keeps_waiting (P txid (calls w + i))"
    and "clock w + elapsed_before P txid pollInterval (calls w) k - startTime < maxWaitTime"
  shows "poll_loop P txid maxWaitTime pollInterval startTime w =
         poll_loop P txid maxWaitTime pollInterval startTime
           \<lparr>clock = clock w + elapsed_before P txid pollInterval (calls w) k,
            calls = calls w + k\<rparr>"
  using assms
proof (induction k arbitrary: w)
  case 0
  then show ?case by (cases w) (simp add: elapsed_before_def)
next
  case (Suc k)
  let ?w1 = "\<lparr>clock = clock w + latency (P txid (calls w)) + pollInterval,
              calls = Suc (calls w)\<rparr>"
  from Suc.prems(1) have kw: "keeps_waiting (P txid (calls w))"
    by (metis add.right_neutral zero_less_Suc)
  from Suc.prems(2) have lt: "clock w - startTime < maxWaitTime"
    by (simp add: elapsed_before_Suc)
  have step: "poll_loop P txid maxWaitTime pollInterval startTime w =
              poll_loop P txid maxWaitTime pollInterval startTime ?w1"
    using lt kw by (simp add: poll_loop_step poll_iteration_waiting)
  have "\<forall>i<k. keeps_waiting (P txid (calls ?w1 + i))"
  proof (intro allI impI)
    fix i
    assume "i < k"
    then have "Suc i < Suc k" by simp
    with Suc.prems(1) have "keeps_waiting (P txid (calls w + Suc i))" by blast
    then show "keeps_waiting (P txid (calls ?w1 + i))" by simp
  qed
  moreover have "clock ?w1 + elapsed_before P txid pollInterval (calls ?w1) k - startTime
                  < maxWaitTime"
    using Suc.prems(2) by (simp add: elapsed_before_Suc add.assoc)
  ultimately have "poll_loop P txid maxWaitTime pollInterval startTime ?w1 =
     poll_loop P txid maxWaitTime pollInterval startTime
       \<lparr>clock = clock ?w1 + elapsed_before P txid pollInterval (calls ?w1) k,
        calls = calls ?w1 + k\<rparr>"
    by (rule Suc.IH)
  with step show ?case
    by (simp add: elapsed_before_Suc add.assoc)
qed

section \<open>Claims about the transaction poller\<close>

text \<open>
  C1. When the polls before the \<open>k\<close>-th keep waiting, the \<open>k\<close>-th poll starts inside the
  budget and the provider then answers \<open>CONFIRMED\<close>, \<open>waitForTransaction\<close> returns that
  answer on this very poll: after \<open>k + 1\<close> queries, at the moment the answer arrives,
  with no further sleep and without waiting for \<open>maxWaitTime\<close>.
\<close>

theorem poller_returns_on_confirmed:
  assumes "\<forall>i<k. keeps_waiting (P txid (calls w + i))"
    and "reply (P txid (calls w + k)) = HttpOk d"
    and "api_state d = CONFIRMED"
    and "elapsed_before P txid pollInterval (calls w) k < maxWaitTime"
  shows "waitForTransaction P txid maxWaitTime pollInterval w =
           Some (Inr (status_response txid d),
                 \<lparr>clock = clock w + elapsed_before P txid pollInterval (calls w) k
                            + latency (P txid (calls w + k)),
                  calls = calls w + k + 1\<rparr>)"
proof -
  let ?wk = "\<lparr>clock = clock w + elapsed_before P txid pollInterval (calls w) k,
              calls = calls w + k\<rparr>"
  have "poll_loop P txid maxWaitTime pollInterval (clock w) w =
        poll_loop P txid maxWaitTime pollInterval (clock w) ?wk"
    using assms(1,4) by (intro poll_loop_skip) simp_all
  also have "\<dots> = Some (Inr (status_response txid d),
                 \<lparr>clock = clock w + elapsed_before P txid pollInterval (calls w) k
                            + latency (P txid (calls w + k)),
                  calls = calls w + k + 1\<rparr>)"
    using assms(2,3,4) by (simp add: poll_loop_step poll_iteration_confirmed)
  finally show ?thesis by (simp add: waitForTransaction_def)
qed

text \<open>
  With \<open>SENT\<close>, \<open>SENT\<close>, \<open>CONFIRMED\<close>, 20 ms per query and the default budget of 120 s
  polled every 3 s, the poller returns the confirmed transaction after 6060 ms.
\<close>

theorem poller_returns_on_confirmed_witness:
  "waitForTransaction sent_sent_confirmed ''tx1'' TRANSACTION_CONFIRMATION POLLING_INTERVAL
     \<lparr>clock = 1000, calls = 0\<rparr> =
   Some (Inr (status_response ''tx1'' (example_tx CONFIRMED)),
         \<lparr>clock = 7060, calls = 3\<rparr>)"
  using poller_returns_on_confirmed [of 2 sent_sent_confirmed "''tx1''"
      "\<lparr>clock = 1000, calls = 0\<rparr>" "example_tx CONFIRMED" POLLING_INTERVAL
      TRANSACTION_CONFIRMATION]
  by (simp add: sent_sent_confirmed_def keeps_waiting_def example_tx_def elapsed_before_def
      TRANSACTION_CONFIRMATION_def POLLING_INTERVAL_def numeral_2_eq_2)


text \<open>
  C2. When the polls before the \<open>k\<close>-th keep waiting, the \<open>k\<close>-th poll starts inside the
  budget and the provider then answers \<open>FAILED\<close>, \<open>waitForTransaction\<close> throws on this
  very poll an error whose message is \<open>Transaction failed: \<close> followed by the provider's
  \<open>errorReason\<close> (or \<open>Unknown error\<close> when there is none): at the moment the answer arrives,
  with no further sleep and without waiting for \<open>maxWaitTime\<close>.
\<close>

theorem poller_fails_fast:
  assumes "\<forall>i<k. keeps_waiting (P txid (calls w + i))"
    and "reply (P txid (calls w + k)) = HttpOk d"
    and "api_state d = FAILED"
    and "elapsed_before P txid pollInterval (calls w) k < maxWaitTime"
  shows "waitForTransaction P txid maxWaitTime pollInterval w =
           Some (Inl (Error (''Transaction failed: '' @
                             or_else (errorReason d) ''Unknown error'')),
                 \<lparr>clock = clock w + elapsed_before P txid pollInterval (calls w) k
                            + latency (P txid (calls w + k)),
                  calls = calls w + k + 1\<rparr>)"
proof -
  let ?wk = "\<lparr>clock = clock w + elapsed_before P txid pollInterval (calls w) k,
              calls = calls w + k\<rparr>"
  have "poll_loop P txid maxWaitTime pollInterval (clock w) w =
        poll_loop P txid maxWaitTime pollInterval (clock w) ?wk"
    using assms(1,4) by (intro poll_loop_skip) simp_all
  also have "\<dots> = Some (Inl (Error (''Transaction failed: '' @
                             or_else (errorReason d) ''Unknown error'')),
                 \<lparr>clock = clock w + elapsed_before P txid pollInterval (calls w) k
                            + latency (P txid (calls w + k)),
                  calls = calls w + k + 1\<rparr>)"
    using assms(2,3,4) by (simp add: poll_loop_step poll_iteration_failed)
  finally show ?thesis by (simp add: waitForTransaction_def)
qed

text \<open>
  With \<open>SENT\<close> and then \<open>FAILED\<close> (reason \<open>execution reverted\<close>) the poller throws after
  3040 ms of a 120 s budget.
\<close>

theorem poller_fails_fast_witness:
  "waitForTransaction sent_then_failed ''tx1'' TRANSACTION_CONFIRMATION POLLING_INTERVAL
     \<lparr>clock = 1000, calls = 0\<rparr> =
   Some (Inl \<lparr>name = ''Error'', message = ''Transaction failed: execution reverted''\<rparr>,
         \<lparr>clock = 4040, calls = 2\<rparr>)"
  using poller_fails_fast [of 1 sent_then_failed "''tx1''"
      "\<lparr>clock = 1000, calls = 0\<rparr>" "example_tx FAILED" POLLING_INTERVAL
      TRANSACTION_CONFIRMATION]
  by (simp add: sent_then_failed_def keeps_waiting_def example_tx_def elapsed_before_def
      TRANSACTION_CONFIRMATION_def POLLING_INTERVAL_def or_else_def Error_def)



text \<open>The loop under polls that all keep waiting, from any state inside the run.\<close>

lemma poll_loop_timeout:
  assumes kw: "\<forall>i. keeps_waiting (P txid i)" and iv: "0 < pollInterval"
    and st: "startTime \<le> clock w"
  shows "\<exists>w'. poll_loop P txid maxWaitTime pollInterval startTime w =
                 Some (Inl (timeout_error txid maxWaitTime), w')
            \<and> maxWaitTime \<le> clock w' - startTime
            \<and> calls w \<le> calls w'
            \<and> ((\<forall>i. latency (P txid i) \<le> L) \<longrightarrow>
                 (clock w - startTime < maxWaitTime \<longrightarrow>
                    clock w' - startTime < maxWaitTime + pollInterval + L)
                 \<and> (\<forall>k. clock w - startTime + k * (pollInterval + L) < maxWaitTime \<longrightarrow>
                        calls w + k < calls w'))"
  using st
proof (induction "maxWaitTime - (clock w - startTime)" arbitrary: w rule: less_induct)
  case less
  show ?case
  proof (cases "clock w - startTime < maxWaitTime")
    case False
    then have "poll_loop P txid maxWaitTime pollInterval startTime w =
                 Some (Inl (timeout_error txid maxWaitTime), w)"
      by (rule poll_loop_exit)
    with False show ?thesis by auto
  next
    case True
    let ?lat = "latency (P txid (calls w))"
    let ?w1 = "\<lparr>clock = clock w + ?lat + pollInterval, calls = Suc (calls w)\<rparr>"
    have step: "poll_loop P txid maxWaitTime pollInterval startTime w =
                poll_loop P txid maxWaitTime pollInterval startTime ?w1"
      using True kw by (simp add: poll_loop_step poll_iteration_waiting)
    have e1: "clock ?w1 - startTime = clock w - startTime + ?lat + pollInterval"
      using less.prems by simp
    have dec: "maxWaitTime - (clock ?w1 - startTime) < maxWaitTime - (clock w - startTime)"
      using True iv e1 by linarith
    have st1: "startTime \<le> clock ?w1"
      using less.prems by simp
    from less.hyps [OF dec st1] obtain w' where
      res: "poll_loop P txid maxWaitTime pollInterval startTime ?w1 =
              Some (Inl (timeout_error txid maxWaitTime), w')"
      and lo: "maxWaitTime \<le> clock w' - startTime"
      and mono: "calls ?w1 \<le> calls w'"
      and bd: "(\<forall>i. latency (P txid i) \<le> L) \<longrightarrow>
                 (clock ?w1 - startTime < maxWaitTime \<longrightarrow>
                    clock w' - startTime < maxWaitTime + pollInterval + L)
                 \<and> (\<forall>k. clock ?w1 - startTime + k * (pollInterval + L) < maxWaitTime \<longrightarrow>
                        calls ?w1 + k < calls w')"
      by blast
    have up: "clock w' - startTime < maxWaitTime + pollInterval + L"
      if lat: "\<forall>i. latency (P txid i) \<le> L"
    proof (cases "clock ?w1 - startTime < maxWaitTime")
      case True
      with bd lat show ?thesis by blast
    next
      case False
      then have "poll_loop P txid maxWaitTime pollInterval startTime ?w1 =
                   Some (Inl (timeout_error txid maxWaitTime), ?w1)"
        by (rule poll_loop_exit)
      with res have "w' = ?w1" by simp
      moreover have "?lat \<le> L" using lat by blast
      ultimately show ?thesis using \<open>clock w - startTime < maxWaitTime\<close> e1 by simp
    qed
    have cnt: "calls w + k < calls w'"
      if lat: "\<forall>i. latency (P txid i) \<le> L"
        and k: "clock w - startTime + k * (pollInterval + L) < maxWaitTime" for k
    proof (cases k)
      case 0
      with mono show ?thesis by simp
    next
      case (Suc j)
      have "?lat \<le> L" using lat by blast
      with k Suc e1 have "clock ?w1 - startTime + j * (pollInterval + L) < maxWaitTime"
        by simp
      with bd lat have "calls ?w1 + j < calls w'" by blast
      with Suc show ?thesis by simp
    qed
    from step res lo mono up cnt show ?thesis
      by (intro exI [of _ w']) auto
  qed
qed

text \<open>
  C3, as amended. When every poll keeps waiting (the provider never answers \<open>CONFIRMED\<close>
  or \<open>FAILED\<close>, and no query error carries the text \<open>Transaction failed\<close>) and the poll
  interval is positive, \<open>waitForTransaction\<close> returns, throwing the timeout error that
  names the transaction and \<open>maxWaitTime\<close>, and not before \<open>maxWaitTime\<close> has elapsed.
  When moreover no status query takes longer than \<open>L\<close> ms, the error comes less than
  \<open>pollInterval + L\<close> after the budget's end, and the poller has issued more than \<open>k\<close>
  queries for every \<open>k\<close> with \<open>k * (pollInterval + L) < maxWaitTime\<close>: with a budget of
  500 ms, an interval of 100 ms and queries of at most 66 ms, at least 4.
\<close>

theorem poller_times_out:
  assumes "\<forall>i. keeps_waiting (P txid i)" and "0 < pollInterval"
  shows "\<exists>w'. waitForTransaction P txid maxWaitTime pollInterval w =
                 Some (Inl (Error (''Transaction '' @ txid @ '' confirmation timeout after '' @
                                   string_of_nat maxWaitTime @ ''ms'')), w')
            \<and> maxWaitTime \<le> clock w' - clock w
            \<and> ((\<forall>i. latency (P txid i) \<le> L) \<longrightarrow>
                 clock w' - clock w < maxWaitTime + pollInterval + L
                 \<and> (\<forall>k. k * (pollInterval + L) < maxWaitTime \<longrightarrow> k < calls w' - calls w))"
proof -
  have "clock w \<le> clock w" by simp
  from poll_loop_timeout [where P = P and txid = txid and L = L and maxWaitTime = maxWaitTime,
      OF assms this] obtain w' where
    res: "poll_loop P txid maxWaitTime pollInterval (clock w) w =
              Some (Inl (timeout_error txid maxWaitTime), w')"
      and lo: "maxWaitTime \<le> clock w' - clock w"
      and bd: "(\<forall>i. latency (P txid i) \<le> L) \<longrightarrow>
                 (clock w - clock w < maxWaitTime \<longrightarrow>
                    clock w' - clock w < maxWaitTime + pollInterval + L)
                 \<and> (\<forall>k. clock w - clock w + k * (pollInterval + L) < maxWaitTime \<longrightarrow>
                        calls w + k < calls w')"
    by blast
  have "clock w' - clock w < maxWaitTime + pollInterval + L"
    if lat: "\<forall>i. latency (P txid i) \<le> L"
  proof (cases "0 < maxWaitTime")
    case True
    with bd lat show ?thesis by simp
  next
    case False
    then have "poll_loop P txid maxWaitTime pollInterval (clock w) w =
                 Some (Inl (timeout_error txid maxWaitTime), w)"
      by (intro poll_loop_exit) simp
    with res have "w' = w" by simp
    with assms(2) show ?thesis by simp
  qed
  moreover have "k < calls w' - calls w"
    if "\<forall>i. latency (P txid i) \<le> L" and "k * (pollInterval + L) < maxWaitTime" for k
    using bd that by fastforce
  ultimately show ?thesis
    using res lo unfolding waitForTransaction_def timeout_error_def by blast
qed

text \<open>
  A provider that always answers \<open>QUEUED\<close> at once, a budget of 500 ms and an interval of
  100 ms: the timeout error comes between 500 ms and 600 ms, after more than 3 queries.
\<close>

theorem poller_times_out_witness:
  "\<exists>w'. waitForTransaction always_queued ''tx1'' 500 100 \<lparr>clock = 1000, calls = 0\<rparr> =
           Some (Inl \<lparr>name = ''Error'',
                      message = ''Transaction tx1 confirmation timeout after 500ms''\<rparr>, w')
      \<and> 500 \<le> clock w' - 1000 \<and> clock w' - 1000 < 600 \<and> 3 < calls w'"
proof -
  let ?w = "\<lparr>clock = 1000, calls = 0\<rparr>"
  have s: "string_of_nat 500 = ''500''" by code_simp
  have kw: "\<forall>i. keeps_waiting (always_queued ''tx1'' i)"
    by (simp add: always_queued_def keeps_waiting_def example_tx_def)
  have lat: "\<forall>i. latency (always_queued ''tx1'' i) \<le> 0"
    by (simp add: always_queued_def)
  have iv: "0 < (100::nat)" by simp
  from poller_times_out [where P = always_queued and txid = "''tx1''" and pollInterval = 100
      and maxWaitTime = 500 and w = ?w and L = 0, OF kw iv]
  obtain w' where
    res: "waitForTransaction always_queued ''tx1'' 500 100 ?w =
       Some (Inl (Error (''Transaction '' @ ''tx1'' @ '' confirmation timeout after '' @
                         string_of_nat 500 @ ''ms'')), w')"
    and lo: "500 \<le> clock w' - clock ?w"
    and bd: "(\<forall>i. latency (always_queued ''tx1'' i) \<le> 0) \<longrightarrow>
               clock w' - clock ?w < 500 + 100 + 0
               \<and> (\<forall>k. k * (100 + 0) < (500::nat) \<longrightarrow> k < calls w' - calls ?w)"
    by blast
  from bd lat have up: "clock w' - clock ?w < 500 + 100 + 0"
    and cnt: "\<forall>k. k * (100 + 0) < (500::nat) \<longrightarrow> k < calls w' - calls ?w"
    by blast+
  have "(3::nat) * (100 + 0) < 500" by simp
  with cnt have "3 < calls w' - calls ?w" by blast
  with res lo up show ?thesis
    by (intro exI [of _ w']) (simp add: s Error_def)
qed


text \<open>
  The claim as written fails for a provider that is slow: always \<open>QUEUED\<close>, one second
  per query, a budget of 500 ms and an interval of 100 ms give the timeout error at
  1100 ms after a single query.
\<close>

theorem poller_slow_provider_one_poll:
  "waitForTransaction slow_queued ''tx1'' 500 100 \<lparr>clock = 0, calls = 0\<rparr> =
     Some (Inl (timeout_error ''tx1'' 500), \<lparr>clock = 1100, calls = 1\<rparr>)"
  by (simp add: waitForTransaction_def poll_loop_step poll_loop_exit poll_iteration_waiting
      keeps_waiting_def slow_queued_def example_tx_def)

text \<open>
  C4 at an input where the code does not do what the claim says. The first status query
  throws (HTTP 500 with the provider message \<open>Transaction failed\<close>), the next one would
  answer \<open>CONFIRMED\<close> well inside the budget. \<open>getTransactionStatus\<close> wraps the query error
  as \<open>Get transaction status failed: Transaction failed\<close>; the \<open>catch\<close> block of the poller
  finds \<open>Transaction failed\<close> in that message and throws the query error again, so the
  poller ends with the query error after one query instead of sleeping and retrying.
\<close>

theorem poller_rethrows_marked_query_error:
  "waitForTransaction throws_then_confirmed ''tx1'' TRANSACTION_CONFIRMATION POLLING_INTERVAL
     \<lparr>clock = 1000, calls = 0\<rparr> =
   Some (Inl \<lparr>name = ''CircleApiError'',
              message = ''Get transaction status failed: Transaction failed''\<rparr>,
         \<lparr>clock = 1020, calls = 1\<rparr>)"
  by (simp add: waitForTransaction_def poll_loop_step poll_iteration_marked_error
      throws_then_confirmed_def TRANSACTION_CONFIRMATION_def POLLING_INTERVAL_def
      or_else_def CircleApiError_def)

text \<open>
  X1. A status query that throws an error whose message does not contain
  \<open>Transaction failed\<close> ends neither the loop nor the budget: the poller sleeps one poll
  interval and goes on with the next query.
\<close>

theorem poller_retries_unmarked_query_error:
  assumes "reply (P txid (calls w)) = HttpErr provider_message client_message"
    and "\<not> str_includes (''Get transaction status failed: '' @
                          or_else provider_message client_message) ''Transaction failed''"
    and "clock w - startTime < maxWaitTime"
  shows "poll_loop P txid maxWaitTime pollInterval startTime w =
         poll_loop P txid maxWaitTime pollInterval startTime
           \<lparr>clock = clock w + latency (P txid (calls w)) + pollInterval,
            calls = Suc (calls w)\<rparr>"
proof -
  from assms(1,2) have "keeps_waiting (P txid (calls w))"
    by (simp add: keeps_waiting_def)
  with assms(3) show ?thesis
    by (subst poll_loop_step) (simp_all add: poll_iteration_waiting)
qed

text \<open>
  With a provider whose even-numbered queries time out in the HTTP client and whose
  odd-numbered queries answer \<open>CONFIRMED\<close>, the poller sleeps one interval after the first
  query and returns the confirmed transaction on the second.
\<close>

theorem poller_retries_unmarked_query_error_witness:
  "waitForTransaction flaky_then_confirmed ''tx1'' TRANSACTION_CONFIRMATION POLLING_INTERVAL
     \<lparr>clock = 1000, calls = 0\<rparr> =
   Some (Inr (status_response ''tx1'' (example_tx CONFIRMED)),
         \<lparr>clock = 4040, calls = 2\<rparr>)"
proof -
  let ?P = flaky_then_confirmed
  have "poll_loop ?P ''tx1'' 120000 3000 1000 \<lparr>clock = 1000, calls = 0\<rparr> =
        poll_loop ?P ''tx1'' 120000 3000 1000 \<lparr>clock = 4020, calls = 1\<rparr>"
    using poller_retries_unmarked_query_error [of ?P "''tx1''" "\<lparr>clock = 1000, calls = 0\<rparr>"
        None "''timeout of 30000ms exceeded''" 1000 120000 3000]
    by (simp add: flaky_then_confirmed_def or_else_def)
  also have "\<dots> = Some (Inr (status_response ''tx1'' (example_tx CONFIRMED)),
                         \<lparr>clock = 4040, calls = 2\<rparr>)"
    using poll_iteration_confirmed [of ?P "''tx1''" "\<lparr>clock = 4020, calls = 1\<rparr>"
        "example_tx CONFIRMED" 3000]
    by (subst poll_loop_step) (simp_all add: flaky_then_confirmed_def example_tx_def)
  finally show ?thesis
    by (simp add: waitForTransaction_def TRANSACTION_CONFIRMATION_def POLLING_INTERVAL_def)
qed

section \<open>Programs that may throw\<close>

lemma and_then_ret [simp]: "and_then (ret x) f = f x"
  by (rule ext) (simp add: and_then_def ret_def)

lemma and_then_throw [simp]: "and_then (throw e) f = throw e"
  by (rule ext) (simp add: and_then_def throw_def)

lemma try_catch_ret [simp]: "try_catch (ret x) h = ret x"
  by (rule ext) (simp add: try_catch_def ret_def)

lemma try_catch_throw [simp]: "try_catch (throw e) h = h e"
  by (rule ext) (simp add: try_catch_def throw_def)



section \<open>The services, stage by stage\<close>

lemma message_Error [simp]: "message (Error m) = m"
  by (simp add: Error_def)

lemma name_Error [simp]: "name (Error m) = ''Error''"
  by (simp add: Error_def)

lemma createWallet_eq:
  "createWallet env bcs w =
     (case sdk_createWallets env (count_calls is_CreateWallets (trace w)) of
        Inl e \<Rightarrow>
          (Inl (Error (''Circle API: Failed to create SCA wallet - '' @ message e)),
           w\<lparr>trace := trace w @ [CreateWallets 1 ''SCA'' [''ETH-SEPOLIA'']]\<rparr>)
      | Inr response \<Rightarrow>
          (case response of
             Some (wallet # rest) \<Rightarrow>
               (Inr (wallet # rest),
                w\<lparr>trace := trace w @ [CreateWallets 1 ''SCA'' [''ETH-SEPOLIA'']]\<rparr>)
           | _ \<Rightarrow>
               (Inl (Error (''Circle API: Failed to create SCA wallet - '' @
                            ''No wallets created in response'')),
                w\<lparr>trace := trace w @ [CreateWallets 1 ''SCA'' [''ETH-SEPOLIA'']]\<rparr>)))"
  by (simp add: createWallet_def try_catch_def and_then_def send_def ret_def throw_def
      split: sum.splits option.splits list.splits)

lemma updateUserWallet_eq:
  "updateUserWallet userId wid waddr w =
     (case users w userId of
        None \<Rightarrow> (Inl (Error (''Failed to update user wallet: '' @ ''User not found'')), w)
      | Some user \<Rightarrow>
          (Inr (user\<lparr>walletId := Some wid, walletAddress := Some waddr, updatedAt := now w\<rparr>),
           w\<lparr>users := (users w)(userId \<mapsto>
                  user\<lparr>walletId := Some wid, walletAddress := Some waddr,
                       updatedAt := now w\<rparr>),
             usersByEmail := (usersByEmail w)(email user \<mapsto>
                  user\<lparr>walletId := Some wid, walletAddress := Some waddr,
                       updatedAt := now w\<rparr>)\<rparr>))"
  by (simp add: updateUserWallet_def try_catch_def throw_def Let_def split: option.splits)

lemma getWalletBalance_eq:
  "getWalletBalance env wid w =
     (case get_balances env (count_calls is_GetBalances (trace w)) of
        Inl e \<Rightarrow>
          (Inl (Error (''Circle API: Failed to get wallet balance - '' @ message e)),
           w\<lparr>trace := trace w @ [GetBalances wid]\<rparr>)
      | Inr balance \<Rightarrow> (Inr balance, w\<lparr>trace := trace w @ [GetBalances wid]\<rparr>))"
  by (simp add: getWalletBalance_def try_catch_def send_def throw_def split: sum.splits)

lemma handleUSDCPayment_eq:
  "handleUSDCPayment env wid blockchainConfig w =
     (case get_balances env (count_calls is_GetBalances (trace w)) of
        Inl e \<Rightarrow>
          (Inl (Error (''USDC payment failed: '' @
                       ''Circle API: Failed to get wallet balance - '' @ message e)),
           w\<lparr>trace := trace w @ [GetBalances wid]\<rparr>)
      | Inr balance \<Rightarrow>
          (case find (\<lambda>b. toLowerCase (token b) =
                          toLowerCase (usdcContractAddress blockchainConfig))
                    (balances balance) of
             None \<Rightarrow>
               (Inl (Error (''USDC payment failed: '' @ ''No USDC balance found in wallet'')),
                w\<lparr>trace := trace w @ [GetBalances wid]\<rparr>)
           | Some usdcBalance \<Rightarrow>
               if amount usdcBalance < storage_cost_units env
               then (Inl (Error (''USDC payment failed: '' @
                                 ''Insufficient USDC balance. Required: '' @
                                 metadataStorageCost env @ '' USDC, Available: '' @
                                 format_units env (amount usdcBalance) @ '' USDC'')),
                     w\<lparr>trace := trace w @ [GetBalances wid]\<rparr>)
               else (Inr (), w\<lparr>trace := trace w @ [GetBalances wid]\<rparr>)))"
  by (simp add: handleUSDCPayment_def try_catch_def and_then_def getWalletBalance_eq
      throw_def ret_def split: sum.splits option.splits)

lemma executeGaslessTransaction_eq:
  "executeGaslessTransaction env wid contract abiFunctionSignature abiParameters bc w =
     (let w1 = w\<lparr>trace := trace w @
                   [CreateTransaction wid bc contract abiFunctionSignature abiParameters]\<rparr>;
          answer = sdk_createTransaction env (count_calls is_CreateTransaction (trace w));
          failed = (\<lambda>e. if NODE_ENV env = Some ''development''
                         then (Inr \<lparr>gs_transactionId = ''dev_tx_'' @ string_of_nat (now w),
                                    gs_transactionHash =
                                      ''0x'' @ take 64 (map digit36 (random_base16 env (draws w))),
                                    gs_state = ''CONFIRMED''\<rparr>,
                               w1\<lparr>draws := Suc (draws w)\<rparr>)
                         else (Inl (Error (''Circle API: Gasless transaction failed - '' @
                                           message e)), w1))
      in case answer of
           Inl e \<Rightarrow> failed e
         | Inr None \<Rightarrow> failed (Error ''No response data from Circle transaction API'')
         | Inr (Some d) \<Rightarrow>
             if truthy (sdk_txHash d)
             then (Inr \<lparr>gs_transactionId = or_else (sdk_id d) (''tx_'' @ string_of_nat (now w)),
                        gs_transactionHash = or_else (sdk_txHash d) [],
                        gs_state = or_else (sdk_state d) ''CONFIRMED''\<rparr>, w1)
             else (Inr \<lparr>gs_transactionId = or_else (sdk_id d) (''tx_'' @ string_of_nat (now w)),
                        gs_transactionHash =
                          ''0x'' @ take 64 (map digit36 (random_base16 env (draws w))),
                        gs_state = or_else (sdk_state d) ''CONFIRMED''\<rparr>,
                   w1\<lparr>draws := Suc (draws w)\<rparr>))"
  by (simp add: executeGaslessTransaction_def try_catch_def and_then_def send_def throw_def
      ret_def random_string16_def Let_def split: sum.splits option.splits)

lemma parseTokenIdFromTransaction_eq:
  "parseTokenIdFromTransaction env hash blockchainConfig internalBlockchain w =
     (if blockchains env internalBlockchain = None
      then (Inl (Error (''Provider not available for '' @ internalBlockchain)), w)
      else (case getTransactionReceipt env (count_calls is_GetTransactionReceipt (trace w)) of
              Inl e \<Rightarrow> (Inl e, w\<lparr>trace := trace w @ [GetTransactionReceipt internalBlockchain hash]\<rparr>)
            | Inr receipt \<Rightarrow>
                (case receipt of
                   None \<Rightarrow> (Inl (Error ''Transaction receipt not found or no logs''),
                            w\<lparr>trace := trace w @ [GetTransactionReceipt internalBlockchain hash]\<rparr>)
                 | Some r \<Rightarrow>
                     if logs r = []
                     then (Inl (Error ''Transaction receipt not found or no logs''),
                           w\<lparr>trace := trace w @ [GetTransactionReceipt internalBlockchain hash]\<rparr>)
                     else (case scan_logs (parseLog env) (logs r) of
                             Some tokenId \<Rightarrow>
                               (Inr tokenId,
                                w\<lparr>trace := trace w @ [GetTransactionReceipt internalBlockchain hash]\<rparr>)
                           | None \<Rightarrow>
                               (Inl (Error ''No mint event found in transaction logs''),
                                w\<lparr>trace := trace w @ [GetTransactionReceipt internalBlockchain hash]\<rparr>)))))"
  by (simp add: parseTokenIdFromTransaction_def try_catch_def and_then_def send_def throw_def
      ret_def split: sum.splits option.splits)


section \<open>The example environment\<close>

lemma example_env_fields:
  "blockchains example_env = [''ethereum'' \<mapsto> example_config]"
  "gateway example_env = ''https://ipfs.io/ipfs/''"
  "pinataApiKey example_env = None"
  "pinataSecretKey example_env = None"
  "metadataStorageCost example_env = ''1''"
  "storage_cost_units example_env = 1000000"
  "NODE_ENV example_env = Some ''production''"
  "uuidv4 example_env n = ''user-'' @ string_of_nat n"
  "random_base36 example_env n = [10, 11, 12]"
  "random_base16 example_env n = [13, 14, 15]"
  "random_10000 example_env n = 7"
  "sdk_createWallets example_env n = Inr (Some [example_wallet])"
  "pinJSONToIPFS example_env n = Inl (Error ''Network Error'')"
  "get_balances example_env n = Inr \<lparr>balances = []\<rparr>"
  "sdk_createTransaction example_env n =
     Inr (Some \<lparr>sdk_id = Some ''tx-1'', sdk_txHash = Some ''0xabc'',
                 sdk_state = Some ''CONFIRMED''\<rparr>)"
  "getTransactionReceipt example_env n = Inr (Some \<lparr>logs = [example_log [''NFTMinted'']]\<rparr>)"
  "parseLog example_env = example_parse"
  by (simp_all add: example_env_def)

section \<open>Claims about the metadata publisher\<close>

lemma createMockIPFS_eq:
  "createMockIPFS env metadata w =
     (Inr (gateway env @ ''QmR'' @ take 13 (map digit36 (random_base36 env (draws w))) @
           take 13 (map digit36 (random_base36 env (Suc (draws w)))) @ ''Abc''),
      w\<lparr>draws := Suc (Suc (draws w))\<rparr>)"
  by (simp add: createMockIPFS_def and_then_def random_string36_def ret_def)

lemma uploadToPinata_eq:
  "uploadToPinata env metadata w =
     (case pinJSONToIPFS env (count_calls is_PinJSON (trace w)) of
        Inl e \<Rightarrow> (Inl e, w\<lparr>trace := trace w @ [PinJSON metadata]\<rparr>)
      | Inr h \<Rightarrow> (Inr (gateway env @ h), w\<lparr>trace := trace w @ [PinJSON metadata]\<rparr>))"
  by (simp add: uploadToPinata_def try_catch_def and_then_def send_def ret_def throw_def
      split: sum.splits)

lemma uploadMetadataToIPFS_eq:
  "uploadMetadataToIPFS env metadata w =
     (if truthy (pinataApiKey env) \<and> truthy (pinataSecretKey env) then
        (case pinJSONToIPFS env (count_calls is_PinJSON (trace w)) of
           Inr ipfsHash \<Rightarrow>
             (Inr (gateway env @ ipfsHash), w\<lparr>trace := trace w @ [PinJSON metadata]\<rparr>)
         | Inl e \<Rightarrow>
             (Inr (gateway env @ ''QmR'' @
                   take 13 (map digit36 (random_base36 env (draws w))) @
                   take 13 (map digit36 (random_base36 env (Suc (draws w)))) @ ''Abc''),
              w\<lparr>trace := trace w @ [PinJSON metadata], draws := Suc (Suc (draws w))\<rparr>))
      else
        (Inr (gateway env @ ''QmR'' @
              take 13 (map digit36 (random_base36 env (draws w))) @
              take 13 (map digit36 (random_base36 env (Suc (draws w)))) @ ''Abc''),
         w\<lparr>draws := Suc (Suc (draws w))\<rparr>))"
  by (simp add: uploadMetadataToIPFS_def try_catch_def uploadToPinata_eq createMockIPFS_eq
      split: sum.splits)

text \<open>
  C6. \<open>uploadMetadataToIPFS\<close> never throws, whatever the metadata: it always returns a
  string that starts with the gateway. When the pinning service is not configured, and
  when the upload throws (whatever the error), the string is the placeholder of
  \<open>createMockIPFS\<close>: the gateway, \<open>QmR\<close>, two random base-36 strings of at most 13
  characters, \<open>Abc\<close>. When the upload succeeds it is the gateway and the returned hash.
\<close>

theorem uploadMetadataToIPFS_never_throws:
  "(\<exists>uri w'. uploadMetadataToIPFS env metadata w = (Inr uri, w') \<and> prefix (gateway env) uri)
   \<and> (\<not> (truthy (pinataApiKey env) \<and> truthy (pinataSecretKey env)) \<longrightarrow>
        fst (uploadMetadataToIPFS env metadata w) =
          Inr (gateway env @ ''QmR'' @
               take 13 (map digit36 (random_base36 env (draws w))) @
               take 13 (map digit36 (random_base36 env (Suc (draws w)))) @ ''Abc''))
   \<and> (\<forall>e. pinJSONToIPFS env (count_calls is_PinJSON (trace w)) = Inl e \<longrightarrow>
        fst (uploadMetadataToIPFS env metadata w) =
          Inr (gateway env @ ''QmR'' @
               take 13 (map digit36 (random_base36 env (draws w))) @
               take 13 (map digit36 (random_base36 env (Suc (draws w)))) @ ''Abc''))
   \<and> (\<forall>ipfsHash. truthy (pinataApiKey env) \<and> truthy (pinataSecretKey env) \<and>
          pinJSONToIPFS env (count_calls is_PinJSON (trace w)) = Inr ipfsHash \<longrightarrow>
        fst (uploadMetadataToIPFS env metadata w) = Inr (gateway env @ ipfsHash))"
proof (intro conjI allI impI)
  show "\<exists>uri w'. uploadMetadataToIPFS env metadata w = (Inr uri, w') \<and> prefix (gateway env) uri"
    by (cases "pinJSONToIPFS env (count_calls is_PinJSON (trace w))")
       (simp_all add: uploadMetadataToIPFS_eq)
next
  assume "\<not> (truthy (pinataApiKey env) \<and> truthy (pinataSecretKey env))"
  then show "fst (uploadMetadataToIPFS env metadata w) =
          Inr (gateway env @ ''QmR'' @
               take 13 (map digit36 (random_base36 env (draws w))) @
               take 13 (map digit36 (random_base36 env (Suc (draws w)))) @ ''Abc'')"
    by (auto simp add: uploadMetadataToIPFS_eq)
next
  fix e
  assume "pinJSONToIPFS env (count_calls is_PinJSON (trace w)) = Inl e"
  then show "fst (uploadMetadataToIPFS env metadata w) =
          Inr (gateway env @ ''QmR'' @
               take 13 (map digit36 (random_base36 env (draws w))) @
               take 13 (map digit36 (random_base36 env (Suc (draws w)))) @ ''Abc'')"
    by (simp add: uploadMetadataToIPFS_eq)
next
  fix ipfsHash
  assume "truthy (pinataApiKey env) \<and> truthy (pinataSecretKey env) \<and>
          pinJSONToIPFS env (count_calls is_PinJSON (trace w)) = Inr ipfsHash"
  then show "fst (uploadMetadataToIPFS env metadata w) = Inr (gateway env @ ipfsHash)"
    by (simp add: uploadMetadataToIPFS_eq)
qed

text \<open>
  Without pinning credentials, and with credentials but a pinning service that is down,
  the publisher returns the same placeholder.
\<close>

theorem uploadMetadataToIPFS_never_throws_witness:
  "fst (uploadMetadataToIPFS example_env (example_metadata ''N1'') empty_world) =
     Inr ''https://ipfs.io/ipfs/QmRabcabcAbc''
   \<and> fst (uploadMetadataToIPFS
            (example_env\<lparr>pinataApiKey := Some ''key'', pinataSecretKey := Some ''secret''\<rparr>)
            (example_metadata ''N1'') empty_world) =
     Inr ''https://ipfs.io/ipfs/QmRabcabcAbc''"
  using uploadMetadataToIPFS_never_throws [of example_env "example_metadata ''N1''" empty_world]
    uploadMetadataToIPFS_never_throws
      [of "example_env\<lparr>pinataApiKey := Some ''key'', pinataSecretKey := Some ''secret''\<rparr>"
          "example_metadata ''N1''" empty_world]
  by (simp add: example_env_def empty_world_def truthy_def digit36_def count_calls_def)

section \<open>Claims about the receipt parser\<close>







section \<open>Evaluating the mint workflow on the examples\<close>

lemmas eval_defs =
  mintNFT_def mintNFT_try_def Let_def and_then_def try_catch_def
  wallet_block_def mint_with_user_def token_id_block_def getBlockchainConfig_def
  getUserByEmail_def createUser_def ret_def throw_def mapToInternalBlockchain_def
  internalMapping_def createWallet_eq updateUserWallet_eq handleUSDCPayment_eq
  executeGaslessTransaction_eq parseTokenIdFromTransaction_eq
  uploadMetadataToIPFS_eq random_floor10000_def
  truthy_def or_else_def count_calls_def example_parse_def example_log_def
  string_of_nat.simps digit_char_def digit36_def
  example_request_def empty_world_def
  example_wallet_def example_config_def example_metadata_def

lemma flaky_submit_env_fields:
  "blockchains flaky_submit_env = [''ethereum'' \<mapsto> example_config]"
  "gateway flaky_submit_env = ''https://ipfs.io/ipfs/''"
  "pinataApiKey flaky_submit_env = None"
  "pinataSecretKey flaky_submit_env = None"
  "NODE_ENV flaky_submit_env = Some ''production''"
  "uuidv4 flaky_submit_env n = ''user-'' @ string_of_nat n"
  "random_base36 flaky_submit_env n = [10, 11, 12]"
  "random_base16 flaky_submit_env n = [13, 14, 15]"
  "sdk_createWallets flaky_submit_env n = Inr (Some [example_wallet])"
  "sdk_createTransaction flaky_submit_env n =
     (if n = 1 then Inl (Error ''Request failed with status code 500'')
      else Inr (Some \<lparr>sdk_id = Some ''tx-1'', sdk_txHash = Some ''0xabc'',
                 sdk_state = Some ''CONFIRMED''\<rparr>))"
  "getTransactionReceipt flaky_submit_env n =
     Inr (Some \<lparr>logs = [example_log [''NFTMinted'']]\<rparr>)"
  "parseLog flaky_submit_env = example_parse"
  by (simp_all add: flaky_submit_env_def example_env_fields)

lemma flaky_outcomes:
  "item_outcomes (mintNFT flaky_submit_env) (\<lambda>w. w\<lparr>now := now w + 1000\<rparr>)
     ''a@x.com'' ''ETH-SEPOLIA'' False 0
     [example_metadata ''N1'', example_metadata ''N2'', example_metadata ''N3'']
     empty_world =
   [(0, example_metadata ''N1'',
     Inr \<lparr>transactionHash = ''0xabc'', nftId = ''42'', contractAddress = ''0xC0FFEE'',
          resp_walletAddress = Some ''0xA11CE'', resp_blockchain = ''ethereum'',
          gasSponsored = True\<rparr>),
    (1, example_metadata ''N2'',
     Inl (Error (''Failed to mint NFT: Circle API: Gasless transaction failed - '' @
                 ''Request failed with status code 500''))),
    (2, example_metadata ''N3'',
     Inr \<lparr>transactionHash = ''0xabc'', nftId = ''42'', contractAddress = ''0xC0FFEE'',
          resp_walletAddress = Some ''0xA11CE'', resp_blockchain = ''ethereum'',
          gasSponsored = True\<rparr>)]"
  by (simp add: eval_defs flaky_submit_env_fields batch_request_def
      cong: prod.case_cong_weak sum.case_cong_weak option.case_cong_weak if_weak_cong)

lemma example_mint:
  "fst (mintNFT example_env example_request empty_world) =
     Inr \<lparr>transactionHash = ''0xabc'', nftId = ''42'', contractAddress = ''0xC0FFEE'',
          resp_walletAddress = Some ''0xA11CE'', resp_blockchain = ''ethereum'',
          gasSponsored = True\<rparr>"
  "trace (snd (mintNFT example_env example_request empty_world)) =
     [CreateWallets 1 ''SCA'' [''ETH-SEPOLIA''],
      CreateTransaction (Some ''wallet-1'') ''ETH-SEPOLIA'' ''0xC0FFEE'' ''mint(address,string)''
        [Some ''0xA11CE'', Some ''https://ipfs.io/ipfs/QmRabcabcAbc''],
      GetTransactionReceipt ''ethereum'' ''0xabc'']"
  by (simp_all add: eval_defs example_env_fields
      cong: prod.case_cong_weak sum.case_cong_weak option.case_cong_weak if_weak_cong)

section \<open>Claims about the batch-mint route\<close>

lemma batch_loop_outcomes:
  "fst (batch_loop mint pause mail bc pay i items results errs w) =
     (results @ kept_results (item_outcomes mint pause mail bc pay i items w),
      errs @ recorded_errors (item_outcomes mint pause mail bc pay i items w))"
proof (induction items arbitrary: i results errs w)
  case Nil
  then show ?case by (simp add: kept_results_def recorded_errors_def)
next
  case (Cons metadata rest)
  show ?case
  proof (cases "mint (batch_request mail bc pay i metadata) w")
    case (Pair r w1)
    then show ?thesis
      by (cases r) (simp_all add: Cons.IH kept_results_def recorded_errors_def)
  qed
qed

lemma upt_shift: "[i ..< Suc (i + n)] = i # [Suc i ..< Suc (i + n)]"
  by (simp add: upt_conv_Cons)

lemma item_outcomes_items:
  "map (\<lambda>(i, metadata, r). (i, metadata)) (item_outcomes mint pause mail bc pay i items w) =
   zip [i ..< i + length items] items"
proof (induction items arbitrary: i w)
  case Nil
  then show ?case by simp
next
  case (Cons metadata rest)
  show ?case
  proof (cases "mint (batch_request mail bc pay i metadata) w")
    case (Pair r w1)
    then show ?thesis
      by (cases r) (simp_all add: Cons.IH upt_shift del: upt_Suc)
  qed
qed

lemma kept_plus_recorded:
  "length (kept_results outs) + length (recorded_errors outs) = length outs"
  by (induction outs) (auto simp: kept_results_def recorded_errors_def split: sum.splits)

text \<open>
  C8. The batch handler mints the items one after the other in list order, every item of
  the list, whatever the earlier items did: the outcomes are those of \<open>item_outcomes\<close>,
  one per item. The results it returns are those of the items whose mint returned, the
  errors it returns carry the index, the name and the error message of the items whose
  mint threw, and the totals are the lengths of these two lists and add up to the number
  of items requested. This holds for any mint function.
\<close>

theorem batch_mint_partial_failure:
  "map (\<lambda>(i, metadata, r). (i, metadata)) (item_outcomes mint pause mail bc pay 0 nfts w) =
     zip [0 ..< length nfts] nfts
   \<and> successful (fst (batch_mint_handler mint pause mail nfts bc pay w)) =
       kept_results (item_outcomes mint pause mail bc pay 0 nfts w)
   \<and> errors (fst (batch_mint_handler mint pause mail nfts bc pay w)) =
       recorded_errors (item_outcomes mint pause mail bc pay 0 nfts w)
   \<and> totalSuccessful (fst (batch_mint_handler mint pause mail nfts bc pay w)) =
       length (kept_results (item_outcomes mint pause mail bc pay 0 nfts w))
   \<and> totalFailed (fst (batch_mint_handler mint pause mail nfts bc pay w)) =
       length (recorded_errors (item_outcomes mint pause mail bc pay 0 nfts w))
   \<and> totalRequested (fst (batch_mint_handler mint pause mail nfts bc pay w)) = length nfts
   \<and> totalSuccessful (fst (batch_mint_handler mint pause mail nfts bc pay w)) +
     totalFailed (fst (batch_mint_handler mint pause mail nfts bc pay w)) =
       totalRequested (fst (batch_mint_handler mint pause mail nfts bc pay w))"
proof -
  let ?outs = "item_outcomes mint pause mail bc pay 0 nfts w"
  have items: "map (\<lambda>(i, metadata, r). (i, metadata)) ?outs = zip [0 ..< length nfts] nfts"
    using item_outcomes_items [of mint pause mail bc pay 0 nfts w] by simp
  then have "length (map (\<lambda>(i, metadata, r). (i, metadata)) ?outs) =
             length (zip [0 ..< length nfts] nfts)"
    by simp
  then have len: "length ?outs = length nfts" by simp
  obtain results errs w' where
    loop: "batch_loop mint pause mail bc pay 0 nfts [] [] w = ((results, errs), w')"
    by (metis surj_pair)
  with batch_loop_outcomes [of mint pause mail bc pay 0 nfts "[]" "[]" w]
  have r: "results = kept_results ?outs" and e: "errs = recorded_errors ?outs"
    by simp_all
  have resp: "fst (batch_mint_handler mint pause mail nfts bc pay w) =
     \<lparr>http_status = (if length results > 0 then 201 else 400),
      resp_success = (length errs < length nfts),
      resp_message = ''Batch mint completed: '' @ string_of_nat (length results) @
                     '' successful, '' @ string_of_nat (length errs) @ '' failed'',
      successful = results, errors = errs, totalRequested = length nfts,
      totalSuccessful = length results, totalFailed = length errs\<rparr>"
    by (simp add: batch_mint_handler_def loop)
  show ?thesis
    using items len kept_plus_recorded [of ?outs]
    by (simp add: resp r e)
qed

text \<open>
  A batch of three items in an environment that refuses the second transaction submission:
  items 1 and 3 are minted (token id 42), item 2 is recorded as an error with index 1, and
  the totals are 2 successful and 1 failed of 3.
\<close>

theorem batch_mint_partial_failure_witness:
  "totalRequested (fst (batch_mint flaky_submit_env ''a@x.com''
      [example_metadata ''N1'', example_metadata ''N2'', example_metadata ''N3'']
      ''ETH-SEPOLIA'' False empty_world)) = 3
   \<and> totalSuccessful (fst (batch_mint flaky_submit_env ''a@x.com''
      [example_metadata ''N1'', example_metadata ''N2'', example_metadata ''N3'']
      ''ETH-SEPOLIA'' False empty_world)) = 2
   \<and> totalFailed (fst (batch_mint flaky_submit_env ''a@x.com''
      [example_metadata ''N1'', example_metadata ''N2'', example_metadata ''N3'']
      ''ETH-SEPOLIA'' False empty_world)) = 1
   \<and> map nftId (successful (fst (batch_mint flaky_submit_env ''a@x.com''
      [example_metadata ''N1'', example_metadata ''N2'', example_metadata ''N3'']
      ''ETH-SEPOLIA'' False empty_world))) = [''42'', ''42'']
   \<and> errors (fst (batch_mint flaky_submit_env ''a@x.com''
      [example_metadata ''N1'', example_metadata ''N2'', example_metadata ''N3'']
      ''ETH-SEPOLIA'' False empty_world)) =
     [\<lparr>index = 1, nftName = ''N2'',
       error = ''Failed to mint NFT: Circle API: Gasless transaction failed - Request failed with status code 500''\<rparr>]"
  using batch_mint_partial_failure [of "mintNFT flaky_submit_env" "\<lambda>w. w\<lparr>now := now w + 1000\<rparr>"
      "''a@x.com''" "''ETH-SEPOLIA''" False
      "[example_metadata ''N1'', example_metadata ''N2'', example_metadata ''N3'']" empty_world]
  unfolding batch_mint_def flaky_outcomes
  by (simp add: kept_results_def recorded_errors_def or_else_def example_metadata_def)

section \<open>The requests of a mint\<close>

lemma calls_only_ret: "calls_only ok (ret x)"
  by (simp add: calls_only_def ret_def)

lemma calls_only_throw: "calls_only ok (throw e)"
  by (simp add: calls_only_def throw_def)

lemma calls_only_and_then:
  assumes m: "calls_only ok m" and f: "\<And>x. calls_only ok (f x)"
  shows "calls_only ok (and_then m f)"
  unfolding calls_only_def
proof
  fix w
  obtain r w1 where mw: "m w = (r, w1)" by (metis surj_pair)
  from m obtain ext1 where e1: "trace w1 = trace w @ ext1" "list_all ok ext1"
    unfolding calls_only_def using mw by (metis snd_conv)
  show "\<exists>ext. trace (snd (and_then m f w)) = trace w @ ext \<and> list_all ok ext"
  proof (cases r)
    case (Inl e)
    with mw e1 show ?thesis by (simp add: and_then_def)
  next
    case (Inr x)
    from f [of x] obtain ext2 where
      e2: "trace (snd (f x w1)) = trace w1 @ ext2" "list_all ok ext2"
      unfolding calls_only_def by blast
    with Inr mw e1 have "trace (snd (and_then m f w)) = trace w @ (ext1 @ ext2)"
      "list_all ok (ext1 @ ext2)"
      by (simp_all add: and_then_def)
    then show ?thesis by blast
  qed
qed

lemma calls_only_try_catch:
  assumes m: "calls_only ok m" and h: "\<And>e. calls_only ok (h e)"
  shows "calls_only ok (try_catch m h)"
  unfolding calls_only_def
proof
  fix w
  obtain r w1 where mw: "m w = (r, w1)" by (metis surj_pair)
  from m obtain ext1 where e1: "trace w1 = trace w @ ext1" "list_all ok ext1"
    unfolding calls_only_def using mw by (metis snd_conv)
  show "\<exists>ext. trace (snd (try_catch m h w)) = trace w @ ext \<and> list_all ok ext"
  proof (cases r)
    case (Inr x)
    with mw e1 show ?thesis by (simp add: try_catch_def)
  next
    case (Inl e)
    from h [of e] obtain ext2 where
      e2: "trace (snd (h e w1)) = trace w1 @ ext2" "list_all ok ext2"
      unfolding calls_only_def by blast
    with Inl mw e1 have "trace (snd (try_catch m h w)) = trace w @ (ext1 @ ext2)"
      "list_all ok (ext1 @ ext2)"
      by (simp_all add: try_catch_def)
    then show ?thesis by blast
  qed
qed

lemma calls_only_one:
  assumes "\<And>w. trace (snd (m w)) = trace w @ [c]" and "ok c"
  shows "calls_only ok m"
  unfolding calls_only_def
proof
  fix w
  from assms have "trace (snd (m w)) = trace w @ [c] \<and> list_all ok [c]" by simp
  then show "\<exists>ext. trace (snd (m w)) = trace w @ ext \<and> list_all ok ext" by blast
qed

lemma calls_only_none:
  assumes "\<And>w. trace (snd (m w)) = trace w"
  shows "calls_only ok m"
  unfolding calls_only_def
proof
  fix w
  from assms have "trace (snd (m w)) = trace w @ [] \<and> list_all ok []" by simp
  then show "\<exists>ext. trace (snd (m w)) = trace w @ ext \<and> list_all ok ext" by blast
qed

lemma calls_only_createWallet:
  "ok (CreateWallets 1 ''SCA'' [''ETH-SEPOLIA'']) \<Longrightarrow> calls_only ok (createWallet env bcs)"
  by (rule calls_only_one [where c = "CreateWallets 1 ''SCA'' [''ETH-SEPOLIA'']"])
     (simp_all add: createWallet_eq split: sum.splits option.splits list.splits)

lemma calls_only_updateUserWallet: "calls_only ok (updateUserWallet userId wid waddr)"
  by (rule calls_only_none) (simp add: updateUserWallet_eq split: option.splits)

lemma calls_only_createUser: "calls_only ok (createUser env mail wid waddr)"
  by (rule calls_only_none) (simp add: createUser_def Let_def split: option.splits)

lemma calls_only_getUserByEmail: "calls_only ok (getUserByEmail mail)"
  by (rule calls_only_none) (simp add: getUserByEmail_def)

lemma calls_only_getBlockchainConfig: "calls_only ok (getBlockchainConfig env bc)"
  by (rule calls_only_none) (simp add: getBlockchainConfig_def ret_def throw_def split: option.splits)

lemma calls_only_upload:
  "(\<And>m. ok (PinJSON m)) \<Longrightarrow> calls_only ok (uploadMetadataToIPFS env metadata)"
  unfolding calls_only_def
proof
  fix w
  assume ok: "\<And>m. ok (PinJSON m)"
  have "trace (snd (uploadMetadataToIPFS env metadata w)) = trace w @ [PinJSON metadata]
        \<or> trace (snd (uploadMetadataToIPFS env metadata w)) = trace w @ []"
    by (simp add: uploadMetadataToIPFS_eq split: sum.splits)
  moreover have "list_all ok [PinJSON metadata]" "list_all ok []" using ok by simp_all
  ultimately show "\<exists>ext. trace (snd (uploadMetadataToIPFS env metadata w)) = trace w @ ext
                         \<and> list_all ok ext"
    by blast
qed

lemma calls_only_handleUSDCPayment:
  "ok (GetBalances wid) \<Longrightarrow> calls_only ok (handleUSDCPayment env wid blockchainConfig)"
  by (rule calls_only_one [where c = "GetBalances wid"])
     (simp_all add: handleUSDCPayment_eq split: sum.splits option.splits)

lemma calls_only_executeGaslessTransaction:
  "ok (CreateTransaction wid bc contract f ps) \<Longrightarrow>
   calls_only ok (executeGaslessTransaction env wid contract f ps bc)"
  by (rule calls_only_one [where c = "CreateTransaction wid bc contract f ps"])
     (simp_all add: executeGaslessTransaction_eq Let_def split: sum.splits option.splits)

lemma calls_only_token_id_block:
  assumes "\<And>b h. ok (GetTransactionReceipt b h)"
  shows "calls_only ok (token_id_block env transaction blockchainConfig internalBlockchain)"
  unfolding calls_only_def
proof
  fix w
  let ?m = "token_id_block env transaction blockchainConfig internalBlockchain"
  let ?c = "GetTransactionReceipt internalBlockchain (gs_transactionHash transaction)"
  have "trace (snd (?m w)) = trace w @ [?c] \<or> trace (snd (?m w)) = trace w @ []"
    by (simp add: token_id_block_def try_catch_def and_then_def random_floor10000_def ret_def
        parseTokenIdFromTransaction_eq split: sum.splits option.splits)
  moreover have "list_all ok [?c]" "list_all ok []" using assms by simp_all
  ultimately show "\<exists>ext. trace (snd (?m w)) = trace w @ ext \<and> list_all ok ext"
    by blast
qed

lemma calls_only_mint_with_user:
  assumes "\<And>m. ok (PinJSON m)" and "\<And>i. ok (GetBalances i)"
    and "\<And>uri. ok (CreateTransaction (walletId user) g (nftContractAddress cfg)
                     ''mint(address,string)'' [walletAddress user, Some uri])"
    and "\<And>b h. ok (GetTransactionReceipt b h)"
  shows "calls_only ok (mint_with_user env req g internal cfg user)"
  unfolding mint_with_user_def
  by (intro calls_only_and_then calls_only_upload calls_only_ret
      calls_only_executeGaslessTransaction calls_only_token_id_block assms)
     (simp add: calls_only_handleUSDCPayment calls_only_ret assms)

lemma calls_only_wallet_block:
  assumes "ok (CreateWallets 1 ''SCA'' [''ETH-SEPOLIA''])"
  shows "calls_only ok (wallet_block env g user0)"
  unfolding wallet_block_def
  by (auto intro!: calls_only_and_then calls_only_createWallet calls_only_ret assms
      calls_only_throw calls_only_updateUserWallet split: option.splits)


lemma calls_only_mintNFT_try:
  assumes "ok (CreateWallets 1 ''SCA'' [''ETH-SEPOLIA''])"
    and "\<And>m. ok (PinJSON m)" and "\<And>i. ok (GetBalances i)"
    and "\<And>wid c ps. ok (CreateTransaction wid ''ETH-SEPOLIA'' c ''mint(address,string)'' ps)"
    and "\<And>b h. ok (GetTransactionReceipt b h)"
  shows "calls_only ok (mintNFT_try env req)"
  unfolding mintNFT_try_def Let_def
  by (intro calls_only_and_then calls_only_getBlockchainConfig calls_only_getUserByEmail
      calls_only_wallet_block calls_only_mint_with_user assms)
     (simp add: calls_only_createUser calls_only_ret split: option.splits)

lemma calls_only_mintNFT:
  assumes "ok (CreateWallets 1 ''SCA'' [''ETH-SEPOLIA''])"
    and "\<And>m. ok (PinJSON m)" and "\<And>i. ok (GetBalances i)"
    and "\<And>wid c ps. ok (CreateTransaction wid ''ETH-SEPOLIA'' c ''mint(address,string)'' ps)"
    and "\<And>b h. ok (GetTransactionReceipt b h)"
  shows "calls_only ok (mintNFT env req)"
  unfolding mintNFT_def
  by (intro calls_only_try_catch calls_only_mintNFT_try calls_only_throw assms)

lemma and_then_Inr:
  assumes "and_then m f w = (Inr y, w')"
  obtains x w1 where "m w = (Inr x, w1)" and "f x w1 = (Inr y, w')"
  using assms by (auto simp: and_then_def split: prod.splits sum.splits)


lemma mint_with_user_response:
  assumes "mint_with_user env req g internal cfg user w = (Inr mr, w')"
  shows "resp_walletAddress mr = walletAddress user \<and> resp_blockchain mr = internal
         \<and> contractAddress mr = nftContractAddress cfg \<and> gasSponsored mr"
  using assms unfolding mint_with_user_def
  by (elim and_then_Inr) (auto simp: ret_def)

lemma mintNFT_try_response:
  assumes "mintNFT_try env req w = (Inr mr, w')"
  shows "resp_blockchain mr = ''ethereum'' \<and> gasSponsored mr"
  using assms unfolding mintNFT_try_def Let_def
  by (elim and_then_Inr)
     (auto dest!: mint_with_user_response simp: mapToInternalBlockchain_def internalMapping_def)

lemma mintNFT_Inr:
  "mintNFT env req w = (Inr mr, w') \<Longrightarrow> mintNFT_try env req w = (Inr mr, w')"
  by (auto simp: mintNFT_def try_catch_def throw_def split: prod.splits sum.splits)

section \<open>Claims about the chain of a mint\<close>

text \<open>
  C10. \<open>mintNFT\<close> does not look at the blockchain the request asks for: two requests that
  differ only in that field give the same result and leave the same state. Every wallet
  it creates and every transaction it submits is on \<open>ETH-SEPOLIA\<close>, and the response of a
  successful mint names the chain \<open>ethereum\<close>.
\<close>

theorem mintNFT_ignores_requested_chain:
  "mintNFT env (req\<lparr>blockchain := requested\<rparr>) w = mintNFT env req w
   \<and> (\<exists>ext. trace (snd (mintNFT env req w)) = trace w @ ext \<and> list_all on_ETH_SEPOLIA ext)
   \<and> (\<forall>mr. fst (mintNFT env req w) = Inr mr \<longrightarrow> resp_blockchain mr = ''ethereum'')"
proof (intro conjI allI impI)
  show "mintNFT env (req\<lparr>blockchain := requested\<rparr>) w = mintNFT env req w"
    by (simp add: mintNFT_def mintNFT_try_def mint_with_user_def cong: option.case_cong)
next
  have "calls_only on_ETH_SEPOLIA (mintNFT env req)"
    by (rule calls_only_mintNFT) simp_all
  then show "\<exists>ext. trace (snd (mintNFT env req w)) = trace w @ ext \<and> list_all on_ETH_SEPOLIA ext"
    by (simp add: calls_only_def)
next
  fix mr
  assume "fst (mintNFT env req w) = Inr mr"
  then have "mintNFT env req w = (Inr mr, snd (mintNFT env req w))"
    by (metis prod.collapse)
  from mintNFT_try_response [OF mintNFT_Inr [OF this]]
  show "resp_blockchain mr = ''ethereum''" by simp
qed


text \<open>
  A request for \<open>MATIC-AMOY\<close> creates the wallet and submits the transaction on
  \<open>ETH-SEPOLIA\<close>, as a request for \<open>ETH-SEPOLIA\<close> does.
\<close>

theorem mintNFT_ignores_requested_chain_witness:
  "fst (mintNFT example_env (example_request\<lparr>blockchain := ''MATIC-AMOY''\<rparr>) empty_world) =
     Inr \<lparr>transactionHash = ''0xabc'', nftId = ''42'', contractAddress = ''0xC0FFEE'',
          resp_walletAddress = Some ''0xA11CE'', resp_blockchain = ''ethereum'',
          gasSponsored = True\<rparr>
   \<and> trace (snd (mintNFT example_env (example_request\<lparr>blockchain := ''MATIC-AMOY''\<rparr>)
                    empty_world)) =
     [CreateWallets 1 ''SCA'' [''ETH-SEPOLIA''],
      CreateTransaction (Some ''wallet-1'') ''ETH-SEPOLIA'' ''0xC0FFEE'' ''mint(address,string)''
        [Some ''0xA11CE'', Some ''https://ipfs.io/ipfs/QmRabcabcAbc''],
      GetTransactionReceipt ''ethereum'' ''0xabc'']"
  using mintNFT_ignores_requested_chain [where env = example_env and req = example_request
      and requested = "''MATIC-AMOY''" and w = empty_world] example_mint
  by simp



section \<open>The ledger during a mint\<close>

lemma keeps_users_ret: "keeps_users (ret x)"
  by (simp add: keeps_users_def ret_def)

lemma keeps_users_throw: "keeps_users (throw e)"
  by (simp add: keeps_users_def throw_def)

lemma keeps_users_and_then:
  assumes m: "keeps_users m" and f: "\<And>x. keeps_users (f x)"
  shows "keeps_users (and_then m f)"
  unfolding keeps_users_def
proof
  fix w
  obtain r w1 where mw: "m w = (r, w1)" by (metis surj_pair)
  from m have k1: "users w1 = users w" "usersByEmail w1 = usersByEmail w"
    unfolding keeps_users_def using mw by (metis snd_conv)+
  show "users (snd (and_then m f w)) = users w \<and>
        usersByEmail (snd (and_then m f w)) = usersByEmail w"
  proof (cases r)
    case (Inl e)
    with mw k1 show ?thesis by (simp add: and_then_def)
  next
    case (Inr x)
    from f [of x] have "users (snd (f x w1)) = users w1"
      "usersByEmail (snd (f x w1)) = usersByEmail w1"
      unfolding keeps_users_def by blast+
    with Inr mw k1 show ?thesis by (simp add: and_then_def)
  qed
qed

lemma keeps_users_try_catch:
  assumes m: "keeps_users m" and h: "\<And>e. keeps_users (h e)"
  shows "keeps_users (try_catch m h)"
  unfolding keeps_users_def
proof
  fix w
  obtain r w1 where mw: "m w = (r, w1)" by (metis surj_pair)
  from m have k1: "users w1 = users w" "usersByEmail w1 = usersByEmail w"
    unfolding keeps_users_def using mw by (metis snd_conv)+
  show "users (snd (try_catch m h w)) = users w \<and>
        usersByEmail (snd (try_catch m h w)) = usersByEmail w"
  proof (cases r)
    case (Inr x)
    with mw k1 show ?thesis by (simp add: try_catch_def)
  next
    case (Inl e)
    from h [of e] have "users (snd (h e w1)) = users w1"
      "usersByEmail (snd (h e w1)) = usersByEmail w1"
      unfolding keeps_users_def by blast+
    with Inl mw k1 show ?thesis by (simp add: try_catch_def)
  qed
qed

lemma keeps_users_getBlockchainConfig: "keeps_users (getBlockchainConfig env bc)"
  by (simp add: keeps_users_def getBlockchainConfig_def ret_def throw_def split: option.splits)

lemma keeps_users_upload: "keeps_users (uploadMetadataToIPFS env metadata)"
  by (simp add: keeps_users_def uploadMetadataToIPFS_eq split: sum.splits)

lemma keeps_users_handleUSDCPayment: "keeps_users (handleUSDCPayment env wid cfg)"
  by (simp add: keeps_users_def handleUSDCPayment_eq split: sum.splits option.splits)

lemma keeps_users_executeGaslessTransaction:
  "keeps_users (executeGaslessTransaction env wid contract f ps bc)"
  by (simp add: keeps_users_def executeGaslessTransaction_eq Let_def
      split: sum.splits option.splits)

lemma keeps_users_token_id_block:
  "keeps_users (token_id_block env transaction cfg internal)"
  by (simp add: keeps_users_def token_id_block_def try_catch_def and_then_def
      random_floor10000_def ret_def parseTokenIdFromTransaction_eq
      split: sum.splits option.splits)

lemma keeps_users_mint_with_user: "keeps_users (mint_with_user env req g internal cfg user)"
  unfolding mint_with_user_def
  by (intro keeps_users_and_then keeps_users_upload keeps_users_ret
      keeps_users_executeGaslessTransaction keeps_users_token_id_block)
     (simp add: keeps_users_handleUSDCPayment keeps_users_ret)

lemma wallet_block_cached:
  "truthy (walletId u) \<Longrightarrow> truthy (walletAddress u) \<Longrightarrow> wallet_block env g u = ret u"
  by (simp add: wallet_block_def)

lemma mintNFT_try_cached:
  assumes "usersByEmail w (req_email req) = Some u"
    and "truthy (walletId u)" and "truthy (walletAddress u)"
  shows "mintNFT_try env req w =
         and_then (getBlockchainConfig env ''ethereum'')
           (\<lambda>cfg. mint_with_user env req ''ETH-SEPOLIA'' ''ethereum'' cfg u) w"
proof (cases "blockchains env ''ethereum''")
  case None
  then show ?thesis
    by (simp add: mintNFT_try_def mapToInternalBlockchain_def internalMapping_def
        getBlockchainConfig_def)
next
  case (Some cfg)
  then have "mintNFT_try env req w =
      and_then (getUserByEmail (req_email req)) (\<lambda>found.
      and_then (case found of
                  None \<Rightarrow> createUser env (req_email req) None None
                | Some u \<Rightarrow> ret u) (\<lambda>user0.
      and_then (wallet_block env ''ETH-SEPOLIA'' user0) (\<lambda>user.
      mint_with_user env req ''ETH-SEPOLIA'' ''ethereum'' cfg user))) w"
    by (simp add: mintNFT_try_def mapToInternalBlockchain_def internalMapping_def
        getBlockchainConfig_def Let_def)
  also have "\<dots> = mint_with_user env req ''ETH-SEPOLIA'' ''ethereum'' cfg u w"
    using assms by (simp add: and_then_def getUserByEmail_def wallet_block_cached)
  finally show ?thesis using Some by (simp add: getBlockchainConfig_def)
qed


lemma mintNFT_snd:
  "snd (mintNFT env req w) = snd (mintNFT_try env req w)"
  by (simp add: mintNFT_def try_catch_def throw_def split: prod.splits sum.splits)

lemma world_with_fields:
  "users (world_with u) = [user_id u \<mapsto> u]"
  "usersByEmail (world_with u) = [email u \<mapsto> u]"
  "trace (world_with u) = []"
  "draws (world_with u) = 0"
  "uuids (world_with u) = 0"
  "now (world_with u) = 1700000000000"
  by (simp_all add: world_with_def empty_world_def)

lemma cached_mint:
  "fst (mintNFT example_env example_request (world_with user_with_wallet)) =
     Inr \<lparr>transactionHash = ''0xabc'', nftId = ''42'', contractAddress = ''0xC0FFEE'',
          resp_walletAddress = Some ''0xB0B'', resp_blockchain = ''ethereum'',
          gasSponsored = True\<rparr>"
  "trace (snd (mintNFT example_env example_request (world_with user_with_wallet))) =
     [CreateTransaction (Some ''wallet-0'') ''ETH-SEPOLIA'' ''0xC0FFEE'' ''mint(address,string)''
        [Some ''0xB0B'', Some ''https://ipfs.io/ipfs/QmRabcabcAbc''],
      GetTransactionReceipt ''ethereum'' ''0xabc'']"
  by (simp_all add: eval_defs example_env_fields world_with_def user_with_wallet_def
      cong: prod.case_cong_weak sum.case_cong_weak option.case_cong_weak if_weak_cong)




section \<open>Claims about wallet reuse\<close>

text \<open>
  C5, as amended. When the ledger holds for the request's email a user with a non-empty
  wallet id and a non-empty wallet address, a mint for that user sends no wallet-creation
  request: every request it sends is made with the cached wallet (a submitted transaction
  comes from the user's wallet id and mints to the user's wallet address). The mint leaves
  both maps of the ledger unchanged, and the response of a successful mint carries the
  cached wallet address.
\<close>

theorem mintNFT_reuses_cached_wallet:
  assumes "usersByEmail w (req_email req) = Some u"
    and "truthy (walletId u)" and "truthy (walletAddress u)"
  shows "(\<exists>ext. trace (snd (mintNFT env req w)) = trace w @ ext
               \<and> list_all (reuses_wallet u) ext)
       \<and> users (snd (mintNFT env req w)) = users w
       \<and> usersByEmail (snd (mintNFT env req w)) = usersByEmail w
       \<and> (\<forall>mr. fst (mintNFT env req w) = Inr mr \<longrightarrow>
             resp_walletAddress mr = walletAddress u)"
proof -
  let ?m = "and_then (getBlockchainConfig env ''ethereum'')
              (\<lambda>cfg. mint_with_user env req ''ETH-SEPOLIA'' ''ethereum'' cfg u)"
  have eq: "mintNFT_try env req w = ?m w"
    using assms by (rule mintNFT_try_cached)
  have "calls_only (reuses_wallet u) ?m"
    by (intro calls_only_and_then calls_only_getBlockchainConfig calls_only_mint_with_user)
       simp_all
  then have tr: "\<exists>ext. trace (snd (mintNFT env req w)) = trace w @ ext
                      \<and> list_all (reuses_wallet u) ext"
    by (simp add: calls_only_def mintNFT_snd eq)
  have "keeps_users ?m"
    by (intro keeps_users_and_then keeps_users_getBlockchainConfig keeps_users_mint_with_user)
  then have us: "users (snd (mintNFT env req w)) = users w"
    "usersByEmail (snd (mintNFT env req w)) = usersByEmail w"
    by (simp_all add: keeps_users_def mintNFT_snd eq)
  have "resp_walletAddress mr = walletAddress u" if "fst (mintNFT env req w) = Inr mr" for mr
  proof -
    from that have "mintNFT env req w = (Inr mr, snd (mintNFT env req w))"
      by (metis prod.collapse)
    then have "?m w = (Inr mr, snd (mintNFT env req w))"
      using mintNFT_Inr eq by metis
    then show ?thesis
      by (elim and_then_Inr) (auto dest: mint_with_user_response)
  qed
  with tr us show ?thesis by blast
qed

text \<open>
  A mint for a user with wallet \<open>wallet-0\<close> at \<open>0xB0B\<close> submits from that wallet and
  leaves the user's record as it was.
\<close>

theorem mintNFT_reuses_cached_wallet_witness:
  "trace (snd (mintNFT example_env example_request (world_with user_with_wallet))) =
     [CreateTransaction (Some ''wallet-0'') ''ETH-SEPOLIA'' ''0xC0FFEE'' ''mint(address,string)''
        [Some ''0xB0B'', Some ''https://ipfs.io/ipfs/QmRabcabcAbc''],
      GetTransactionReceipt ''ethereum'' ''0xabc'']
   \<and> usersByEmail (snd (mintNFT example_env example_request (world_with user_with_wallet)))
       ''a@x.com'' = Some user_with_wallet
   \<and> users (snd (mintNFT example_env example_request (world_with user_with_wallet)))
       ''user-7'' = Some user_with_wallet"
  using mintNFT_reuses_cached_wallet [where env = example_env and req = example_request
      and w = "world_with user_with_wallet" and u = user_with_wallet] cached_mint(2)
  by (simp add: world_with_fields example_request_def truthy_def)
     (simp add: user_with_wallet_def)


text \<open>
  The claim as written fails for a user who has a wallet id but no wallet address: the
  guard of the wallet block asks for both, so the mint creates a new wallet, submits from
  it, and overwrites the user's wallet id \<open>wallet-0\<close> with \<open>wallet-1\<close>.
\<close>

theorem mintNFT_creates_wallet_without_address:
  "walletId user_without_address = Some ''wallet-0''
   \<and> usersByEmail (world_with user_without_address) ''a@x.com'' = Some user_without_address
   \<and> trace (snd (mintNFT example_env example_request (world_with user_without_address))) =
     [CreateWallets 1 ''SCA'' [''ETH-SEPOLIA''],
      CreateTransaction (Some ''wallet-1'') ''ETH-SEPOLIA'' ''0xC0FFEE'' ''mint(address,string)''
        [Some ''0xA11CE'', Some ''https://ipfs.io/ipfs/QmRabcabcAbc''],
      GetTransactionReceipt ''ethereum'' ''0xabc'']
   \<and> map_option walletId
       (usersByEmail (snd (mintNFT example_env example_request
                             (world_with user_without_address))) ''a@x.com'') =
     Some (Some ''wallet-1'')"
  by (simp add: eval_defs example_env_fields world_with_def user_with_wallet_def
      user_without_address_def
      cong: prod.case_cong_weak sum.case_cong_weak option.case_cong_weak if_weak_cong)

section \<open>Claims about the errors of a mint\<close>






















section \<open>The response of a successful mint\<close>

text \<open>
  X2. Every response \<open>mintNFT\<close> returns says that the gas was sponsored, names the chain
  \<open>ethereum\<close>, and carries the contract address configured for that chain.
\<close>

theorem mintNFT_response_gas_sponsored:
  assumes "fst (mintNFT env req w) = Inr mr"
  shows "gasSponsored mr \<and> resp_blockchain mr = ''ethereum''
         \<and> (\<exists>cfg. blockchains env ''ethereum'' = Some cfg
                  \<and> contractAddress mr = nftContractAddress cfg)"
proof -
  from assms have "mintNFT env req w = (Inr mr, snd (mintNFT env req w))"
    by (metis prod.collapse)
  then have "mintNFT_try env req w = (Inr mr, snd (mintNFT env req w))"
    by (rule mintNFT_Inr)
  then have "and_then (getBlockchainConfig env ''ethereum'') (\<lambda>blockchainConfig.
      and_then (getUserByEmail (req_email req)) (\<lambda>found.
      and_then (case found of
                  None \<Rightarrow> createUser env (req_email req) None None
                | Some u \<Rightarrow> ret u) (\<lambda>user0.
      and_then (wallet_block env ''ETH-SEPOLIA'' user0) (\<lambda>user.
      mint_with_user env req ''ETH-SEPOLIA'' ''ethereum'' blockchainConfig user)))) w
      = (Inr mr, snd (mintNFT env req w))"
    by (simp add: mintNFT_try_def Let_def mapToInternalBlockchain_def internalMapping_def)
  then show ?thesis
    by (elim and_then_Inr)
       (auto dest!: mint_with_user_response
             simp: getBlockchainConfig_def ret_def throw_def split: option.splits)
qed

text \<open>The mint of the example request for a new user is gas-sponsored.\<close>

theorem mintNFT_response_gas_sponsored_witness:
  "gasSponsored (projr (fst (mintNFT example_env example_request empty_world)))
   \<and> contractAddress (projr (fst (mintNFT example_env example_request empty_world))) =
     ''0xC0FFEE''"
  using mintNFT_response_gas_sponsored [where env = example_env and req = example_request
      and w = empty_world
      and mr = "\<lparr>transactionHash = ''0xabc'', nftId = ''42'', contractAddress = ''0xC0FFEE'',
                  resp_walletAddress = Some ''0xA11CE'', resp_blockchain = ''ethereum'',
                  gasSponsored = True\<rparr>"]
  by (simp add: example_mint)

end
